theory Spec2Isabelle
  imports Main "HOL-Library.AList" "HOL-Library.Char_ord" "HOL-Library.List_Lexorder"
    "HOL-Library.Multiset"
begin

section \<open>Python values, strings and errors\<close>

text \<open>
  A Python \<open>str\<close> is modelled as a \<^typ>\<open>string\<close>, one \<^typ>\<open>char\<close> per code point
  (code points below 256). Every \<open>raise\<close> and every exception of a library call that the
  source can reach is a value of \<open>error\<close>; a function that can raise returns
  \<open>error + 'a\<close>, with \<open>Inl\<close> for the exception.
\<close>

datatype error =
    ValueError string
  | AttributeError
  | KeyError string
  | NameError string
  | TypeError
  | TransportError string

definition ebind :: "error + 'a \<Rightarrow> ('a \<Rightarrow> error + 'b) \<Rightarrow> error + 'b" where
  "ebind m f = (case m of Inl e \<Rightarrow> Inl e | Inr x \<Rightarrow> f x)"

text \<open>Running a fallible step over a list, left to right, stopping at the first error.\<close>

fun emap :: "('a \<Rightarrow> error + 'b) \<Rightarrow> 'a list \<Rightarrow> error + 'b list" where
  "emap f [] = Inr []"
| "emap f (x # xs) =
     (case f x of
        Inl e \<Rightarrow> Inl e
      | Inr y \<Rightarrow> (case emap f xs of Inl e \<Rightarrow> Inl e | Inr ys \<Rightarrow> Inr (y # ys)))"

text \<open>\<open>s.endswith(suf)\<close>\<close>

definition endswith :: "string \<Rightarrow> string \<Rightarrow> bool" where
  "endswith s suf \<longleftrightarrow> length suf \<le> length s \<and> drop (length s - length suf) s = suf"

text \<open>\<open>s.encode('ascii', 'ignore').decode()\<close>: every code point above 127 is dropped.\<close>

definition ascii_ignore :: "string \<Rightarrow> string" where
  "ascii_ignore s = filter (\<lambda>c. (of_char c :: nat) < 128) s"

text \<open>\<open>str(n)\<close> for a Python \<open>int\<close>.\<close>

fun str_nat :: "nat \<Rightarrow> string" where
  "str_nat n =
     (if n < 10 then [''0123456789'' ! n]
      else str_nat (n div 10) @ [''0123456789'' ! (n mod 10)])"

declare str_nat.simps [simp del]

definition str_int :: "int \<Rightarrow> string" where
  "str_int i = (if i < 0 then CHR ''-'' # str_nat (nat (- i)) else str_nat (nat i))"

text \<open>
  The \<open>site\<close> argument: \<open>build_url\<close> accepts \<open>None\<close>, a \<open>str\<close>, an \<open>int\<close> or a
  \<open>float\<close>. A float is carried as the text \<open>str()\<close> gives for it (the formatting of
  floating-point numbers is outside the model).
\<close>

datatype pyarg = PyNone | PyStr string | PyInt int | PyFloat string

fun str_arg :: "pyarg \<Rightarrow> string" where
  "str_arg PyNone = ''None''"
| "str_arg (PyStr s) = s"
| "str_arg (PyInt i) = str_int i"
| "str_arg (PyFloat r) = r"

text \<open>\<open>sep.join(xs)\<close>\<close>

fun join :: "string \<Rightarrow> string list \<Rightarrow> string" where
  "join sep [] = []"
| "join sep [x] = x"
| "join sep (x # y # ys) = x @ sep @ join sep (y # ys)"

section \<open>\<open>requests.utils.quote\<close>\<close>

text \<open>
  \<open>requests.utils.quote\<close> is \<open>urllib.parse.quote\<close> with its default \<open>safe='/'\<close>: the
  string is encoded as UTF-8 and every byte that is not a letter, a digit or one of
  \<open>_.-~/\<close> is written as \<open>%XX\<close> with upper-case hexadecimal digits.
\<close>

definition utf8 :: "char \<Rightarrow> nat list" where
  "utf8 c =
     (let n = (of_char c :: nat)
      in if n < 128 then [n] else [192 + n div 64, 128 + n mod 64])"

definition quote_byte :: "nat \<Rightarrow> string" where
  "quote_byte b = [CHR ''%'', ''0123456789ABCDEF'' ! (b div 16), ''0123456789ABCDEF'' ! (b mod 16)]"

definition always_safe :: "char \<Rightarrow> bool" where
  "always_safe c \<longleftrightarrow>
     c \<in> set ''ABCDEFGHIJKLMNOPQRSTUVWXYZabcdefghijklmnopqrstuvwxyz0123456789_.-~/''"

definition quote :: "string \<Rightarrow> string" where
  "quote s = concat (map (\<lambda>c. if always_safe c then [c] else concat (map quote_byte (utf8 c))) s)"

section \<open>\<open>build_url\<close>\<close>

definition available_requests :: "string list" where
  "available_requests = [''SiteList'', ''MeasurementList'', ''GetData'']"

text \<open>
  The function appends to \<open>url\<close> step by step; each \<open>let\<close> below is one statement of the
  source, in the source's order. The two \<open>raise ValueError\<close> come first. The second
  message is \<open>'request must be one of ' + str(available_requests)\<close>.
\<close>

definition build_url ::
  "string \<Rightarrow> string \<Rightarrow> string \<Rightarrow> pyarg \<Rightarrow> string option \<Rightarrow> string option \<Rightarrow> string option \<Rightarrow>
   bool \<Rightarrow> string list option \<Rightarrow> string option \<Rightarrow> string option \<Rightarrow> string option \<Rightarrow>
   error + string" where
  "build_url base_url hts request site measurement from_date to_date
     location site_parameters agg_method agg_interval alignment =
   (let base_url = (if \<not> endswith base_url ''/'' then base_url @ ''/'' else base_url)
    in
    if \<not> endswith hts ''.hts'' then Inl (ValueError ''The hts file must end with .hts'')
    else if request \<notin> set available_requests then
      Inl (ValueError (''request must be one of '' @
        ''['' @ join '', '' (map (\<lambda>r. [CHR 0x27] @ r @ [CHR 0x27]) available_requests) @ '']''))
    else
      let url = base_url @ hts @ ''?Service=Hilltop&Request='' @ request;
          url = (case site of
                   PyNone \<Rightarrow> url
                 | _ \<Rightarrow> url @ ''&Site='' @ quote (str_arg site));
          url = (case measurement of
                   Some m \<Rightarrow> url @ ''&Measurement='' @ quote m
                 | None \<Rightarrow> url);
          url = (case site_parameters of
                   Some ps \<Rightarrow> url @ ''&SiteParameters='' @ quote (join '','' ps)
                 | None \<Rightarrow> url);
          url = (if location \<and> request = ''SiteList'' then url @ ''&Location=Yes'' else url);
          url = (if request = ''GetData'' then
                   let url = (case agg_method of
                                Some a \<Rightarrow> url @ ''&Method='' @ quote a
                              | None \<Rightarrow> url);
                       url = (case agg_interval of
                                Some a \<Rightarrow> url @ ''&Interval='' @ quote a
                              | None \<Rightarrow> url);
                       url = (case from_date of
                                Some d \<Rightarrow> url @ ''&TimeInterval='' @ d
                              | None \<Rightarrow> url @ ''&TimeInterval=1800-01-01'');
                       url = (case to_date of
                                Some d \<Rightarrow> url @ ''/'' @ d
                              | None \<Rightarrow> url @ ''/now'');
                       url = (case alignment of
                                Some a \<Rightarrow> url @ ''&Alignment='' @ a
                              | None \<Rightarrow> url)
                   in url
                 else url)
      in Inr url)"

section \<open>The parsed response: \<open>xml.etree.ElementTree\<close> elements\<close>

text \<open>
  An element has a tag, attributes, a text that may be \<open>None\<close>, and children in
  document order. \<open>e.find(t)\<close> is the first child with tag \<open>t\<close> or \<open>None\<close>;
  \<open>e.findall(t)\<close> is the list of all such children; iterating over an element, and
  \<open>getchildren()\<close>, give the children.
\<close>

datatype xml =
  Element (tag: string) (attrib: "(string \<times> string) list") (el_text: "string option")
    (children: "xml list")

definition find_elem :: "string \<Rightarrow> xml \<Rightarrow> xml option" where
  "find_elem t e = List.find (\<lambda>c. tag c = t) (children e)"

definition findall :: "string \<Rightarrow> xml \<Rightarrow> xml list" where
  "findall t e = filter (\<lambda>c. tag c = t) (children e)"

text \<open>\<open>d.find(t).text\<close>: an \<open>AttributeError\<close> when there is no such child.\<close>

definition find_text :: "string \<Rightarrow> xml \<Rightarrow> error + string option" where
  "find_text t d = (case find_elem t d of None \<Rightarrow> Inl AttributeError | Some c \<Rightarrow> Inr (el_text c))"

text \<open>
  \<open>x.encode('ascii', 'ignore').decode()\<close> for a text \<open>x\<close> that may be \<open>None\<close>
  (\<open>None\<close> has no \<open>encode\<close>).
\<close>

definition encode_ascii :: "string option \<Rightarrow> error + string" where
  "encode_ascii x = (case x of None \<Rightarrow> Inl AttributeError | Some s \<Rightarrow> Inr (ascii_ignore s))"

text \<open>\<open>i.attrib[k]\<close>\<close>

definition attrib_get :: "string \<Rightarrow> xml \<Rightarrow> error + string" where
  "attrib_get k i = (case map_of (attrib i) k of None \<Rightarrow> Inl (KeyError k) | Some v \<Rightarrow> Inr v)"

section \<open>The collaborators: transport and pandas\<close>

text \<open>
  \<open>fetch\<close> is \<open>ET.fromstring(requests.get(url).content)\<close>. \<open>to_datetime\<close> is the
  parser behind \<open>pd.to_datetime\<close> on one string (\<open>None\<close> when the string does not parse);
  a timestamp is an integer, the nanoseconds since the epoch that pandas stores.
  \<open>to_number\<close> is the parser behind \<open>pd.to_numeric\<close> on one string, into a number type
  \<open>'n\<close> left open. \<open>today k\<close> is what the \<open>k\<close>-th call of \<open>pd.Timestamp.today()\<close>
  returns during one call of a function of this module.
\<close>

record 'n env =
  fetch :: "string \<Rightarrow> error + xml"
  to_datetime :: "string \<Rightarrow> int option"
  to_number :: "string \<Rightarrow> 'n option"
  today :: "nat \<Rightarrow> int"

text \<open>
  A table: the columns of its index (\<open>set_index\<close>) and its rows. \<open>pd.DataFrame()\<close> has
  neither.
\<close>

datatype 'r frame = Frame (index_cols: "string list") (frame_rows: "'r list")

definition empty_DataFrame :: "'r frame" where
  "empty_DataFrame = Frame [] []"

text \<open>
  \<open>pd.to_datetime(column)\<close> with the default \<open>errors='raise'\<close>: \<open>None\<close> becomes
  \<open>NaT\<close> (here \<open>None\<close>), a string that does not parse raises a \<open>ValueError\<close>, whose
  message (it depends on the string) is not modelled.
\<close>

definition to_datetime_raise :: "'n env \<Rightarrow> string option \<Rightarrow> error + int option" where
  "to_datetime_raise env x =
     (case x of
        None \<Rightarrow> Inr None
      | Some s \<Rightarrow> (case to_datetime env s of
                     None \<Rightarrow> Inl (ValueError ''Unknown datetime string format'')
                   | Some ts \<Rightarrow> Inr (Some ts)))"

text \<open>
  \<open>pd.to_datetime(column, errors='coerce')\<close>: a missing value or a string that does not
  parse becomes \<open>NaT\<close>.
\<close>

definition to_datetime_coerce :: "'n env \<Rightarrow> string option \<Rightarrow> int option" where
  "to_datetime_coerce env x = (case x of None \<Rightarrow> None | Some s \<Rightarrow> to_datetime env s)"

text \<open>
  A value of the \<open>Value\<close> column: the string of the payload, or a number.
\<close>

datatype 'n pyval = Str string | Num 'n

text \<open>
  \<open>pd.to_numeric(column, errors='ignore')\<close> works on the whole column: when every
  string parses, the column becomes numeric; when one does not, the input column is
  returned as it is.
\<close>

definition to_numeric_ignore :: "'n env \<Rightarrow> string list \<Rightarrow> 'n pyval list" where
  "to_numeric_ignore env vs =
     (case those (map (to_number env) vs) of
        Some ns \<Rightarrow> map Num ns
      | None \<Rightarrow> map Str vs)"

section \<open>\<open>get_data\<close>\<close>

type_synonym tsdata = "(string option \<times> string) list"
type_synonym p_dict = "(string \<times> string) list"
type_synonym tsdict = "(string option \<times> p_dict) list"

text \<open>
  A Python \<open>dict\<close> is an association list with distinct keys in insertion order;
  \<open>d.update({k: v})\<close> and \<open>d[k] = v\<close> are \<^const>\<open>AList.update\<close>, which replaces the
  value of a key that is present, in place, and appends a new key at the end.

  The dict comprehension
  \<open>{i.attrib['Name'].encode('ascii', 'ignore').decode():
     i.attrib['Value'][:299].encode('ascii', 'ignore').decode() for i in params1}\<close>:
\<close>

fun p_dict_of :: "xml list \<Rightarrow> p_dict \<Rightarrow> error + p_dict" where
  "p_dict_of [] acc = Inr acc"
| "p_dict_of (i # params1) acc =
     (case attrib_get ''Name'' i of
        Inl e \<Rightarrow> Inl e
      | Inr name \<Rightarrow>
          (case attrib_get ''Value'' i of
             Inl e \<Rightarrow> Inl e
           | Inr v \<Rightarrow>
               p_dict_of params1
                 (AList.update (ascii_ignore name) (ascii_ignore (take 299 v)) acc)))"

text \<open>The loop of the \<open>'WQ Sample'\<close> branch, with \<open>tsdata_dict\<close> as accumulator.\<close>

fun wq_sample_loop :: "xml list \<Rightarrow> tsdict \<Rightarrow> error + tsdict" where
  "wq_sample_loop [] tsdata_dict = Inr tsdata_dict"
| "wq_sample_loop (d # es1) tsdata_dict =
     (case find_text ''T'' d of
        Inl e \<Rightarrow> Inl e
      | Inr time1 \<Rightarrow>
          (let params1 = findall ''Parameter'' d
           in if params1 = [] then wq_sample_loop es1 tsdata_dict
              else (case p_dict_of params1 [] of
                      Inl e \<Rightarrow> Inl e
                    | Inr pd \<Rightarrow> wq_sample_loop es1 (AList.update time1 pd tsdata_dict))))"

text \<open>
  \<open>pd.DataFrame.from_dict(tsdata_dict, orient='index').stack().reset_index()\<close>: the wide
  table has one row per key of \<open>tsdata_dict\<close> and one column per parameter name (in
  the order of first appearance); \<open>stack\<close> gives one row for every cell that is not
  missing. The order of the rows of the result depends on the version of pandas; the
  statements below speak of the rows a table holds, not of their order.
\<close>

definition first_seen :: "'a list \<Rightarrow> 'a list" where
  "first_seen xs = rev (remdups (rev xs))"

definition stack_rows :: "tsdict \<Rightarrow> (string option \<times> string \<times> string) list" where
  "stack_rows tsdata_dict =
     (let cols = first_seen (concat (map (\<lambda>(t, pd). map fst pd) tsdata_dict))
      in concat (map (\<lambda>(t, pd).
           concat (map (\<lambda>c. case map_of pd c of None \<Rightarrow> [] | Some v \<Rightarrow> [(t, c, v)]) cols))
           tsdata_dict))"

text \<open>The loop of the \<open>'WQData'\<close> branch with \<open>parameters=True\<close>.\<close>

fun wqdata_loop :: "xml list \<Rightarrow> tsdata \<Rightarrow> tsdict \<Rightarrow> error + (tsdata \<times> tsdict)" where
  "wqdata_loop [] tsdata_list tsextra_dict = Inr (tsdata_list, tsextra_dict)"
| "wqdata_loop (d # es1) tsdata_list tsextra_dict =
     (case find_text ''T'' d of
        Inl e \<Rightarrow> Inl e
      | Inr time1 \<Rightarrow>
          (case ebind (find_text ''Value'' d) encode_ascii of
             Inl e \<Rightarrow> Inl e
           | Inr value1 \<Rightarrow>
               (let params1 = findall ''Parameter'' d
                in if params1 \<noteq> [] then
                     (case p_dict_of params1 [] of
                        Inl e \<Rightarrow> Inl e
                      | Inr pd \<Rightarrow>
                          wqdata_loop es1 (tsdata_list @ [(time1, value1)])
                            (AList.update time1 pd tsextra_dict))
                   else wqdata_loop es1 (tsdata_list @ [(time1, value1)]) tsextra_dict)))"

text \<open>
  The loop with the \<open>gap\<close> counter. The source has it twice, for \<open>'WQData'\<close> without
  parameters (reading the child \<open>Value\<close>) and for \<open>'SimpleTimeSeries'\<close> and
  \<open>'MeterReading'\<close> (reading the child \<open>I1\<close>); \<open>vtag\<close> is the child read.
\<close>

definition time_value :: "string \<Rightarrow> xml \<Rightarrow> error + (string option \<times> string)" where
  "time_value vtag d =
     (case find_text ''T'' d of
        Inl e \<Rightarrow> Inl e
      | Inr t \<Rightarrow> (case ebind (find_text vtag d) encode_ascii of
                    Inl e \<Rightarrow> Inl e
                  | Inr v \<Rightarrow> Inr (t, v)))"

fun gap_loop :: "string \<Rightarrow> xml list \<Rightarrow> nat \<Rightarrow> tsdata \<Rightarrow> error + tsdata" where
  "gap_loop vtag [] gap tsdata_list = Inr tsdata_list"
| "gap_loop vtag (d # es1) gap tsdata_list =
     (if tag d = ''Gap'' then gap_loop vtag es1 (gap + 1) tsdata_list
      else if gap mod 2 = 1 then gap_loop vtag es1 gap tsdata_list
      else (case time_value vtag d of
              Inl e \<Rightarrow> Inl e
            | Inr r \<Rightarrow> gap_loop vtag es1 gap (tsdata_list @ [r])))"

text \<open>The rows of the tables \<open>get_data\<close> returns.\<close>

record 'n ts_row =
  ts_Site :: pyarg
  ts_Measurement :: "string option"
  ts_DateTime :: "int option"
  ts_Value :: "'n pyval"

record wq_row =
  wq_Site :: pyarg
  wq_Parameter :: string
  wq_DateTime :: "int option"
  wq_Value :: string

record extra_row = wq_row +
  ex_Measurement :: "string option"

datatype 'n gd_result =
    GD_Empty
  | GD_Values "'n ts_row frame"
  | GD_WQSample "wq_row frame"
  | GD_Pair "'n ts_row frame" "extra_row frame"

text \<open>
  The last part of \<open>get_data\<close> for a table of values: \<open>DateTime\<close> is parsed, \<open>Site\<close>
  and \<open>Measurement\<close> are added as constant columns, and the index is set.
\<close>

definition values_frame ::
  "'n env \<Rightarrow> pyarg \<Rightarrow> string option \<Rightarrow> string option list \<Rightarrow> 'n pyval list \<Rightarrow>
   error + 'n ts_row frame" where
  "values_frame env site measurement time_col vals =
     (case emap (to_datetime_raise env) time_col of
        Inl e \<Rightarrow> Inl e
      | Inr dts \<Rightarrow>
          Inr (Frame [''Site'', ''Measurement'', ''DateTime'']
            (map (\<lambda>(dt, v). \<lparr>ts_Site = site, ts_Measurement = measurement,
                              ts_DateTime = dt, ts_Value = v\<rparr>) (zip dts vals))))"

definition wq_frame ::
  "'n env \<Rightarrow> pyarg \<Rightarrow> (string option \<times> string \<times> string) list \<Rightarrow> error + wq_row list" where
  "wq_frame env site long =
     (case emap (to_datetime_raise env) (map fst long) of
        Inl e \<Rightarrow> Inl e
      | Inr dts \<Rightarrow>
          Inr (map (\<lambda>(dt, (t, p, v)). \<lparr>wq_Site = site, wq_Parameter = p,
                                        wq_DateTime = dt, wq_Value = v\<rparr>) (zip dts long)))"

text \<open>
  Everything after \<open>meas1\<close> has been found. A name that is read before any branch has
  bound it is an \<open>UnboundLocalError\<close>, a \<open>NameError\<close>.
\<close>

definition get_data_extract ::
  "'n env \<Rightarrow> pyarg \<Rightarrow> string option \<Rightarrow> bool \<Rightarrow> xml \<Rightarrow> error + 'n gd_result" where
  "get_data_extract env site measurement parameters meas1 =
     (case find_elem ''DataSource'' meas1 of
        None \<Rightarrow> Inl AttributeError
      | Some ds \<Rightarrow>
     (case find_text ''DataType'' ds of
        Inl e \<Rightarrow> Inl e
      | Inr datatype \<Rightarrow>
     (case find_elem ''Data'' meas1 of
        None \<Rightarrow> Inl AttributeError
      | Some data1 \<Rightarrow>
     (let es1 = children data1
      in
      if measurement = Some ''WQ Sample'' then
        (case wq_sample_loop es1 [] of
           Inl e \<Rightarrow> Inl e
         | Inr tsdata_dict \<Rightarrow>
             (case wq_frame env site (stack_rows tsdata_dict) of
                Inl e \<Rightarrow> Inl e
              | Inr rows \<Rightarrow>
                  if parameters \<and> datatype = Some ''WQData'' then Inl (NameError ''tsextra_dict'')
                  else Inr (GD_WQSample (Frame [''Site'', ''Parameter'', ''DateTime''] rows))))
      else if datatype = Some ''WQData'' then
        (if parameters then
           (case wqdata_loop es1 [] [] of
              Inl e \<Rightarrow> Inl e
            | Inr (tsdata_list, tsextra_dict) \<Rightarrow>
                (case values_frame env site measurement (map fst tsdata_list)
                        (map Str (map snd tsdata_list)) of
                   Inl e \<Rightarrow> Inl e
                 | Inr data_df \<Rightarrow>
                     if tsextra_dict \<noteq> [] then
                       (case wq_frame env site (stack_rows tsextra_dict) of
                          Inl e \<Rightarrow> Inl e
                        | Inr rows \<Rightarrow>
                            Inr (GD_Pair data_df
                              (Frame [''Site'', ''Measurement'', ''Parameter'', ''DateTime'']
                                 (map (\<lambda>r. wq_row.extend r
                                    \<lparr>ex_Measurement = measurement\<rparr>) rows))))
                     else
                       Inr (GD_Pair data_df
                         (Frame [''Site'', ''Measurement'', ''Parameter'', ''DateTime''] []))))
         else
           (case gap_loop ''Value'' es1 0 [] of
              Inl e \<Rightarrow> Inl e
            | Inr tsdata_list \<Rightarrow>
                (case values_frame env site measurement (map fst tsdata_list)
                        (map Str (map snd tsdata_list)) of
                   Inl e \<Rightarrow> Inl e
                 | Inr data_df \<Rightarrow> Inr (GD_Values data_df))))
      else if datatype \<in> {Some ''SimpleTimeSeries'', Some ''MeterReading''} then
        (case gap_loop ''I1'' es1 0 [] of
           Inl e \<Rightarrow> Inl e
         | Inr tsdata_list \<Rightarrow>
             (case values_frame env site measurement (map fst tsdata_list)
                     (to_numeric_ignore env (map snd tsdata_list)) of
                Inl e \<Rightarrow> Inl e
              | Inr data_df \<Rightarrow> Inr (GD_Values data_df)))
      else Inl (NameError ''data_df'')))))"

text \<open>
  \<open>get_data\<close>: what is printed, and the exception raised or the value returned.
\<close>

definition get_data ::
  "'n env \<Rightarrow> string \<Rightarrow> string \<Rightarrow> pyarg \<Rightarrow> string option \<Rightarrow> string option \<Rightarrow> string option \<Rightarrow>
   string option \<Rightarrow> string option \<Rightarrow> string option \<Rightarrow> bool \<Rightarrow>
   string list \<times> (error + 'n gd_result)" where
  "get_data env base_url hts site measurement from_date to_date agg_method agg_interval
     alignment parameters =
     (case build_url base_url hts ''GetData'' site measurement from_date to_date False None
             agg_method agg_interval alignment of
        Inl e \<Rightarrow> ([], Inl e)
      | Inr url \<Rightarrow>
     (case fetch env url of
        Inl e \<Rightarrow> ([], Inl e)
      | Inr tree1 \<Rightarrow>
          if find_elem ''Error'' tree1 \<noteq> None then
            ([], Inl (ValueError ''No results returned from URL request''))
          else
            (case find_elem ''Measurement'' tree1 of
               None \<Rightarrow> ([''No data, returning empty DataFrame''], Inr GD_Empty)
             | Some meas1 \<Rightarrow> ([], get_data_extract env site measurement parameters meas1))))"

section \<open>\<open>measurement_list\<close>\<close>

definition ds_types :: "string list" where
  "ds_types = [''DataType'', ''From'', ''To'', ''SensorGroup'']"

definition m_types :: "string list" where
  "m_types = [''RequestAs'', ''Units'']"

text \<open>
  \<open>{c.tag: c.text.encode('ascii', 'ignore').decode() for c in d if c.tag in types}\<close>
\<close>

fun tag_dict :: "string list \<Rightarrow> xml list \<Rightarrow> p_dict \<Rightarrow> error + p_dict" where
  "tag_dict types [] acc = Inr acc"
| "tag_dict types (c # cs) acc =
     (if tag c \<in> set types then
        (case encode_ascii (el_text c) of
           Inl e \<Rightarrow> Inl e
         | Inr v \<Rightarrow> tag_dict types cs (AList.update (tag c) v acc))
      else tag_dict types cs acc)"

text \<open>\<open>m_dict.update(ds_dict)\<close>\<close>

definition dict_update :: "p_dict \<Rightarrow> p_dict \<Rightarrow> p_dict" where
  "dict_update m_dict ds_dict = fold (\<lambda>(k, v). AList.update k v) ds_dict m_dict"

text \<open>The inner loop \<open>for m in m_all\<close>, with \<open>data_list\<close> as accumulator.\<close>

fun m_loop :: "p_dict \<Rightarrow> xml list \<Rightarrow> p_dict list \<Rightarrow> error + p_dict list" where
  "m_loop ds_dict [] data_list = Inr data_list"
| "m_loop ds_dict (m # m_all) data_list =
     (case tag_dict m_types (children m) [] of
        Inl e \<Rightarrow> Inl e
      | Inr m_dict \<Rightarrow> m_loop ds_dict m_all (data_list @ [dict_update m_dict ds_dict]))"

text \<open>The body of the outer loop for a data source that is not skipped.\<close>

definition source_rows :: "xml \<Rightarrow> p_dict list \<Rightarrow> error + p_dict list" where
  "source_rows d data_list =
     (case tag_dict ds_types (children d) [] of
        Inl e \<Rightarrow> Inl e
      | Inr ds_dict \<Rightarrow> m_loop ds_dict (findall ''Measurement'' d) data_list)"

text \<open>The outer loop \<open>for d in data_sources\<close>.\<close>

fun ds_loop :: "xml list \<Rightarrow> p_dict list \<Rightarrow> error + p_dict list" where
  "ds_loop [] data_list = Inr data_list"
| "ds_loop (d # data_sources) data_list =
     (case find_elem ''TSType'' d of
        None \<Rightarrow>
          (case source_rows d data_list of
             Inl e \<Rightarrow> Inl e
           | Inr data_list' \<Rightarrow> ds_loop data_sources data_list')
      | Some ts \<Rightarrow>
          if el_text ts \<noteq> Some ''StdSeries'' then ds_loop data_sources data_list
          else
            (case source_rows d data_list of
               Inl e \<Rightarrow> Inl e
             | Inr data_list' \<Rightarrow> ds_loop data_sources data_list'))"

text \<open>
  \<open>pd.DataFrame(data_list)\<close> has one row per dict and one column per key of any dict;
  a dict without the key has a missing value (\<open>NaN\<close>) there. The table is \<open>empty\<close> when
  it has no row or no column.
\<close>

definition has_column :: "p_dict list \<Rightarrow> string \<Rightarrow> bool" where
  "has_column data_list c = list_ex (\<lambda>r. map_of r c \<noteq> None) data_list"

definition df_empty :: "p_dict list \<Rightarrow> bool" where
  "df_empty data_list \<longleftrightarrow> data_list = [] \<or> list_all (\<lambda>r. r = []) data_list"

text \<open>
  A row of the catalog after the renaming of \<open>RequestAs\<close>, the parsing of \<open>To\<close> and
  \<open>From\<close> with \<open>errors='coerce'\<close>, the replacement of the unit \<open>%\<close> by \<open>NaN\<close>, and the
  new column \<open>Site\<close>. \<open>None\<close> is a missing value (\<open>NaN\<close>, \<open>NaT\<close>).
\<close>

record ml_row =
  ml_Site :: pyarg
  ml_Measurement :: "string option"
  ml_Units :: "string option"
  ml_DataType :: "string option"
  ml_From :: "int option"
  ml_To :: "int option"
  ml_SensorGroup :: "string option"

definition ml_row_of :: "'n env \<Rightarrow> pyarg \<Rightarrow> p_dict \<Rightarrow> ml_row" where
  "ml_row_of env site r =
     \<lparr>ml_Site = site,
      ml_Measurement = map_of r ''RequestAs'',
      ml_Units = (case map_of r ''Units'' of
                    None \<Rightarrow> None
                  | Some u \<Rightarrow> if u = ''%'' then None else Some u),
      ml_DataType = map_of r ''DataType'',
      ml_From = to_datetime_coerce env (map_of r ''From''),
      ml_To = to_datetime_coerce env (map_of r ''To''),
      ml_SensorGroup = map_of r ''SensorGroup''\<rparr>"

text \<open>The timestamp \<open>1900-01-01\<close>, in nanoseconds since the epoch.\<close>

definition ts_1900 :: int where
  "ts_1900 = - 2208988800000000000"

text \<open>
  The mask \<open>From.isnull() | To.isnull() | (From < '1900-01-01') | (To > now)\<close>; a
  comparison with \<open>NaT\<close> is false.
\<close>

definition bad_times :: "int \<Rightarrow> ml_row \<Rightarrow> bool" where
  "bad_times now r \<longleftrightarrow>
     ml_From r = None \<or> ml_To r = None \<or>
     (case ml_From r of None \<Rightarrow> False | Some f \<Rightarrow> f < ts_1900) \<or>
     (case ml_To r of None \<Rightarrow> False | Some t \<Rightarrow> t > now)"

datatype ml_result =
    ML_One "ml_row frame"
  | ML_Two "ml_row frame" "ml_row frame"

text \<open>
  \<open>mtype_df.set_index(['Site', 'Measurement'])\<close>: a \<open>KeyError\<close> when no dict had
  \<open>RequestAs\<close>, so that there is no column \<open>Measurement\<close>.
\<close>

definition set_index_ml :: "p_dict list \<Rightarrow> ml_row list \<Rightarrow> error + ml_row frame" where
  "set_index_ml data_list rows =
     (if has_column data_list ''RequestAs'' then Inr (Frame [''Site'', ''Measurement''] rows)
      else Inl (KeyError ''Measurement''))"

text \<open>
  The part of \<open>measurement_list\<close> from \<open>mtype_df = pd.DataFrame(data_list)\<close> on. The clock
  is read once for \<open>bad_sites\<close> (\<open>today env 0\<close>) and once more for the rows that are
  kept (\<open>today env 1\<close>).
\<close>

definition ml_finish ::
  "'n env \<Rightarrow> pyarg \<Rightarrow> bool \<Rightarrow> p_dict list \<Rightarrow> string list \<times> (error + ml_result)" where
  "ml_finish env site output_bad_sites data_list =
     (if \<not> df_empty data_list then
        (let mtype_df = map (ml_row_of env site) data_list
         in
         if output_bad_sites then
           (if \<not> has_column data_list ''From'' then ([], Inl (KeyError ''From''))
            else if \<not> has_column data_list ''To'' then ([], Inl (KeyError ''To''))
            else
              (let bad_sites = filter (bad_times (today env 0)) mtype_df
               in
               if bad_sites = [] then
                 ([], (case set_index_ml data_list mtype_df of
                         Inl e \<Rightarrow> Inl e
                       | Inr good \<Rightarrow> Inr (ML_Two good empty_DataFrame)))
               else
                 ([''There are '' @ str_int (int (length bad_sites)) @ '' sites with bad times''],
                  (case set_index_ml data_list
                          (filter (\<lambda>r. \<not> bad_times (today env 1) r) mtype_df) of
                     Inl e \<Rightarrow> Inl e
                   | Inr good \<Rightarrow> Inr (ML_Two good (Frame [] bad_sites))))))
         else
           ([], (case set_index_ml data_list mtype_df of
                   Inl e \<Rightarrow> Inl e
                 | Inr good \<Rightarrow> Inr (ML_One good))))
      else
        (if output_bad_sites then ([], Inr (ML_Two empty_DataFrame empty_DataFrame))
         else ([], Inr (ML_One empty_DataFrame))))"

text \<open>
  The test \<open>len(data_sources) == 1\<close> and \<open>data_sources[0].attrib['Name'] == 'WQ Sample'\<close>.
\<close>

definition only_wq_sample :: "xml list \<Rightarrow> error + bool" where
  "only_wq_sample data_sources =
     (case data_sources of
        [d] \<Rightarrow> (case attrib_get ''Name'' d of
                  Inl e \<Rightarrow> Inl e
                | Inr name \<Rightarrow> Inr (name = ''WQ Sample''))
      | _ \<Rightarrow> Inr False)"

text \<open>
  \<open>measurement_list\<close>: what is printed, and the exception raised or the value returned.
\<close>

definition measurement_list ::
  "'n env \<Rightarrow> string \<Rightarrow> string \<Rightarrow> pyarg \<Rightarrow> string option \<Rightarrow> bool \<Rightarrow>
   string list \<times> (error + ml_result)" where
  "measurement_list env base_url hts site measurement output_bad_sites =
     (case build_url base_url hts ''MeasurementList'' site measurement None None False None
             None None None of
        Inl e \<Rightarrow> ([], Inl e)
      | Inr url \<Rightarrow>
     (case fetch env url of
        Inl e \<Rightarrow> ([], Inl e)
      | Inr tree1 \<Rightarrow>
          if find_elem ''Error'' tree1 \<noteq> None then
            ([], Inl (ValueError ''No results returned from URL request''))
          else
            (let data_sources = findall ''DataSource'' tree1
             in
             if data_sources = [] then
               ([''No data, returning empty DataFrame''], Inr (ML_One empty_DataFrame))
             else
               (case only_wq_sample data_sources of
                  Inl e \<Rightarrow> ([], Inl e)
                | Inr True \<Rightarrow>
                    ([''Site only has WQ Sample''],
                     if output_bad_sites then Inr (ML_Two empty_DataFrame empty_DataFrame)
                     else Inr (ML_One empty_DataFrame))
                | Inr False \<Rightarrow>
                    (case ds_loop data_sources [] of
                       Inl e \<Rightarrow> ([], Inl e)
                     | Inr data_list \<Rightarrow> ml_finish env site output_bad_sites data_list)))))"

section \<open>\<open>wq_sample_parameter_list\<close>\<close>

text \<open>\<open>tuple(i.attrib['Name'].encode('ascii', 'ignore').decode() for i in params1)\<close>\<close>

definition name_tuple :: "xml list \<Rightarrow> error + string list" where
  "name_tuple params1 =
     emap (\<lambda>i. case attrib_get ''Name'' i of Inl e \<Rightarrow> Inl e | Inr n \<Rightarrow> Inr (ascii_ignore n))
       params1"

text \<open>
  The loop over the time points. Its state is \<open>tsdata_dict\<close>, \<open>p_set\<close> and \<open>p_tup\<close>;
  \<open>p_tup\<close> is \<open>None\<close> as long as no iteration has bound it.
\<close>

fun wqp_loop ::
  "xml list \<Rightarrow> (string option \<times> string list) list \<Rightarrow> string set \<Rightarrow> string list option \<Rightarrow>
   error + ((string option \<times> string list) list \<times> string set \<times> string list option)" where
  "wqp_loop [] tsdata_dict p_set p_tup = Inr (tsdata_dict, p_set, p_tup)"
| "wqp_loop (d # es1) tsdata_dict p_set p_tup =
     (let params1 = findall ''Parameter'' d
      in if params1 = [] then wqp_loop es1 tsdata_dict p_set p_tup
         else
           (case name_tuple params1 of
              Inl e \<Rightarrow> Inl e
            | Inr p_tup' \<Rightarrow>
                (case find_text ''T'' d of
                   Inl e \<Rightarrow> Inl e
                 | Inr t \<Rightarrow>
                     wqp_loop es1 (AList.update t p_tup' tsdata_dict)
                       (p_set \<union> set p_tup') (Some p_tup'))))"

text \<open>
  \<open>min(k)\<close> and \<open>max(k)\<close> on a tuple of keys: the keys are strings, compared as Python
  compares them, or \<open>None\<close> (a time point whose \<open>T\<close> has no text), which cannot be
  compared with a string.
\<close>

definition py_min :: "string option list \<Rightarrow> error + string option" where
  "py_min k =
     (case k of
        [] \<Rightarrow> Inl (ValueError ''min() arg is an empty sequence'')
      | [x] \<Rightarrow> Inr x
      | x # y # ys \<Rightarrow>
          (case those k of
             None \<Rightarrow> Inl TypeError
           | Some ss \<Rightarrow> Inr (Some (fold min (tl ss) (hd ss)))))"

definition py_max :: "string option list \<Rightarrow> error + string option" where
  "py_max k =
     (case k of
        [] \<Rightarrow> Inl (ValueError ''max() arg is an empty sequence'')
      | [x] \<Rightarrow> Inr x
      | x # y # ys \<Rightarrow>
          (case those k of
             None \<Rightarrow> Inl TypeError
           | Some ss \<Rightarrow> Inr (Some (fold max (tl ss) (hd ss)))))"

text \<open>
  \<open>p_t_dict = {p: tuple(i for i, k in tsdata_dict.items() if p in k) for p in p_tup}\<close>
\<close>

definition p_t_dict_of ::
  "(string option \<times> string list) list \<Rightarrow> string list \<Rightarrow> (string \<times> string option list) list" where
  "p_t_dict_of tsdata_dict p_tup =
     fold (\<lambda>p acc. AList.update p (map fst (filter (\<lambda>(i, k). p \<in> set k) tsdata_dict)) acc)
       p_tup []"

text \<open>\<open>min_max_dict = {i: (min(k), max(k)) for i, k in p_t_dict.items()}\<close>\<close>

definition min_max_dict_of ::
  "(string \<times> string option list) list \<Rightarrow>
   error + (string \<times> string option \<times> string option) list" where
  "min_max_dict_of p_t_dict =
     emap (\<lambda>(i, k). case py_min k of
                      Inl e \<Rightarrow> Inl e
                    | Inr lo \<Rightarrow> (case py_max k of
                                   Inl e \<Rightarrow> Inl e
                                 | Inr hi \<Rightarrow> Inr (i, lo, hi)))
       p_t_dict"

record wqp_row =
  wqp_Site :: pyarg
  wqp_Parameter :: string
  wqp_From :: "int option"
  wqp_To :: "int option"
  wqp_DataType :: string

text \<open>
  The part of \<open>wq_sample_parameter_list\<close> after the loop. With an empty
  \<open>min_max_dict\<close> the table has the one column \<open>index\<close> and \<open>set_index\<close> raises.
\<close>

definition wqp_finish ::
  "'n env \<Rightarrow> pyarg \<Rightarrow> (string option \<times> string list) list \<Rightarrow> string list option \<Rightarrow>
   error + wqp_row frame" where
  "wqp_finish env site tsdata_dict p_tup =
     (case p_tup of
        None \<Rightarrow> Inl (NameError ''p_tup'')
      | Some p_tup \<Rightarrow>
     (case min_max_dict_of (p_t_dict_of tsdata_dict p_tup) of
        Inl e \<Rightarrow> Inl e
      | Inr min_max_dict \<Rightarrow>
          if min_max_dict = [] then Inl (KeyError ''Site'')
          else
            (case emap (to_datetime_raise env) (map (\<lambda>(p, lo, hi). hi) min_max_dict) of
               Inl e \<Rightarrow> Inl e
             | Inr tos \<Rightarrow>
            (case emap (to_datetime_raise env) (map (\<lambda>(p, lo, hi). lo) min_max_dict) of
               Inl e \<Rightarrow> Inl e
             | Inr froms \<Rightarrow>
                 Inr (Frame [''Site'', ''Parameter'']
                   (map (\<lambda>((p, lo, hi), (f, t)).
                           \<lparr>wqp_Site = site, wqp_Parameter = p, wqp_From = f, wqp_To = t,
                            wqp_DataType = ''WQSample''\<rparr>)
                      (zip min_max_dict (zip froms tos))))))))"

definition wq_sample_parameter_list ::
  "'n env \<Rightarrow> string \<Rightarrow> string \<Rightarrow> pyarg \<Rightarrow> string list \<times> (error + wqp_row frame)" where
  "wq_sample_parameter_list env base_url hts site =
     (case build_url base_url hts ''GetData'' site (Some ''WQ Sample'') None None False None
             None None None of
        Inl e \<Rightarrow> ([], Inl e)
      | Inr url \<Rightarrow>
     (case fetch env url of
        Inl e \<Rightarrow> ([], Inl e)
      | Inr tree1 \<Rightarrow>
          if find_elem ''Error'' tree1 \<noteq> None then
            ([], Inl (ValueError ''No results returned from URL request''))
          else
            (case find_elem ''Measurement'' tree1 of
               None \<Rightarrow> ([''No data, returning empty DataFrame''], Inr empty_DataFrame)
             | Some meas1 \<Rightarrow>
                 (case find_elem ''Data'' meas1 of
                    None \<Rightarrow> ([], Inl AttributeError)
                  | Some data1 \<Rightarrow>
                      (case wqp_loop (children data1) [] {} None of
                         Inl e \<Rightarrow> ([], Inl e)
                       | Inr (tsdata_dict, p_set, p_tup) \<Rightarrow>
                           ([], wqp_finish env site tsdata_dict p_tup))))))"

section \<open>A concrete environment for examples\<close>

text \<open>
  A transport that answers every request with one document, a date parser that knows a
  few dates, a number parser for unsigned decimal integers, and a clock that stands at
  2020-09-13 12:26:40.
\<close>

definition example_to_datetime :: "string \<Rightarrow> int option" where
  "example_to_datetime =
     map_of [(''1850-01-01'', - 3786825600000000000),
             (''2005-01-01'', 1104537600000000000),
             (''2010-01-01'', 1262304000000000000),
             (''2015-01-01'', 1420070400000000000),
             (''2099-01-01'', 4070908800000000000)]"

definition digit_val :: "char \<Rightarrow> int option" where
  "digit_val c = map_of (zip ''0123456789'' [0, 1, 2, 3, 4, 5, 6, 7, 8, 9]) c"

definition example_to_number :: "string \<Rightarrow> int option" where
  "example_to_number s =
     (if s = [] then None
      else (case those (map digit_val s) of
              None \<Rightarrow> None
            | Some ds \<Rightarrow> Some (fold (\<lambda>d acc. 10 * acc + d) ds 0)))"

definition example_env :: "xml \<Rightarrow> int env" where
  "example_env tree1 =
     \<lparr>fetch = (\<lambda>url. Inr tree1), to_datetime = example_to_datetime,
      to_number = example_to_number, today = (\<lambda>k. 1600000000000000000)\<rparr>"

definition error_response :: xml where
  "error_response = Element ''HilltopServer'' [] None [Element ''Error'' [] (Some ''No data'') []]"

definition no_sources_response :: xml where
  "no_sources_response = Element ''HilltopServer'' [] None [Element ''Agency'' [] (Some ''HRC'') []]"

definition only_wq_response :: xml where
  "only_wq_response =
     Element ''HilltopServer'' [] None [Element ''DataSource'' [(''Name'', ''WQ Sample'')] None []]"

definition no_measurement_response :: xml where
  "no_measurement_response = Element ''Hilltop'' [] None [Element ''Agency'' [] (Some ''HRC'') []]"

text \<open>A \<open>GetData\<close> document with the given data type and children of \<open>Data\<close>.\<close>

definition data_source_elem :: "string \<Rightarrow> xml" where
  "data_source_elem datatype =
     Element ''DataSource'' [] None [Element ''DataType'' [] (Some datatype) []]"

definition measurement_elem :: "string \<Rightarrow> xml list \<Rightarrow> xml" where
  "measurement_elem datatype es =
     Element ''Measurement'' [(''SiteName'', ''S1'')] None
       [data_source_elem datatype, Element ''Data'' [] None es]"

definition data_response :: "string \<Rightarrow> xml list \<Rightarrow> xml" where
  "data_response datatype es = Element ''Hilltop'' [] None [measurement_elem datatype es]"

text \<open>A time point with parameters, as in a \<open>WQ Sample\<close> payload.\<close>

definition wq_point :: "string \<Rightarrow> (string \<times> string) list \<Rightarrow> xml" where
  "wq_point t ps =
     Element ''E'' [] None
       (Element ''T'' [] (Some t) [] #
        map (\<lambda>(n, v). Element ''Parameter'' [(''Name'', n), (''Value'', v)] None []) ps)"

text \<open>A time point of a simple series, and a gap marker.\<close>

definition i1_point :: "string \<Rightarrow> string \<Rightarrow> xml" where
  "i1_point t v = Element ''E'' [] None [Element ''T'' [] (Some t) [], Element ''I1'' [] (Some v) []]"

definition gap_marker :: xml where
  "gap_marker = Element ''Gap'' [] None []"

text \<open>
  A \<open>MeasurementList\<close> document: data sources with their fields and one \<open>Measurement\<close>
  child for each name of \<open>requests\<close>.
\<close>

definition catalog_source :: "(string \<times> string) list \<Rightarrow> xml list \<Rightarrow> string list \<Rightarrow> xml" where
  "catalog_source attrs flds requests =
     Element ''DataSource'' attrs None
       (flds @ map (\<lambda>r. Element ''Measurement'' [] None
                          [Element ''RequestAs'' [] (Some r) [],
                           Element ''Units'' [] (Some ''m'') []]) requests)"

definition field :: "string \<Rightarrow> string \<Rightarrow> xml" where
  "field t v = Element t [] (Some v) []"

definition catalog_response :: "xml list \<Rightarrow> xml" where
  "catalog_response sources = Element ''HilltopServer'' [] None sources"

section \<open>The water-quality payload as the specification reads it\<close>

text \<open>
  The payload of a \<open>WQ Sample\<close> request is a sequence of time points, each with a
  timestamp and named parameters with values. \<open>time_point d\<close> reads one time point:
  the text of its \<open>T\<close> child and, for each \<open>Parameter\<close> child in document order, the
  name and the value as they are extracted (the value cut to 299 characters, both
  without their characters outside ASCII). It fails where the extraction fails.
\<close>

definition param_pair :: "xml \<Rightarrow> error + (string \<times> string)" where
  "param_pair i =
     (case attrib_get ''Name'' i of
        Inl e \<Rightarrow> Inl e
      | Inr name \<Rightarrow>
          (case attrib_get ''Value'' i of
             Inl e \<Rightarrow> Inl e
           | Inr v \<Rightarrow> Inr (ascii_ignore name, ascii_ignore (take 299 v))))"

definition time_point :: "xml \<Rightarrow> error + (string option \<times> (string \<times> string) list)" where
  "time_point d =
     (case find_text ''T'' d of
        Inl e \<Rightarrow> Inl e
      | Inr t \<Rightarrow>
          (case emap param_pair (findall ''Parameter'' d) of
             Inl e \<Rightarrow> Inl e
           | Inr ps \<Rightarrow> Inr (t, ps)))"

text \<open>
  The parameters of the last time point that has the timestamp \<open>t\<close> and at least one
  parameter, if there is one.
\<close>

definition last_with_params ::
  "string option \<Rightarrow> (string option \<times> (string \<times> string) list) list \<Rightarrow>
   (string \<times> string) list option" where
  "last_with_params t pts =
     (let xs = filter (\<lambda>(t', ps). t' = t \<and> ps \<noteq> []) pts
      in if xs = [] then None else Some (snd (last xs)))"

text \<open>The step of the loop of the \<open>'WQ Sample'\<close> branch on a time point read so.\<close>

definition wq_step :: "string option \<times> (string \<times> string) list \<Rightarrow> tsdict \<Rightarrow> tsdict" where
  "wq_step = (\<lambda>(t, ps) tsdata_dict.
     if ps = [] then tsdata_dict else AList.update t (dict_update [] ps) tsdata_dict)"

text \<open>The rows that \<open>stack\<close> gives for one row of the wide table with columns \<open>cols\<close>.\<close>

definition stack_row :: "string list \<Rightarrow> string option \<times> p_dict \<Rightarrow> (string option \<times> string \<times> string) list" where
  "stack_row cols = (\<lambda>(t, pd).
     concat (map (\<lambda>c. case map_of pd c of None \<Rightarrow> [] | Some v \<Rightarrow> [(t, c, v)]) cols))"

section \<open>The gap rule in the words of the specification\<close>

text \<open>
  Gap markers are numbered in document order. A child at position \<open>i\<close> lies between
  an odd-numbered (opening) marker and the next even-numbered (closing) one, or after an
  opening marker that is never closed, exactly when the number of markers before
  position \<open>i\<close> is odd. \<open>retained es\<close> are the children that are not markers and
  have an even number of markers before them.
\<close>

definition gaps_before :: "xml list \<Rightarrow> nat \<Rightarrow> nat" where
  "gaps_before es i = length (filter (\<lambda>d. tag d = ''Gap'') (take i es))"

definition retained :: "xml list \<Rightarrow> xml list" where
  "retained es =
     map (\<lambda>i. es ! i)
       (filter (\<lambda>i. tag (es ! i) \<noteq> ''Gap'' \<and> even (gaps_before es i)) [0..<length es])"

text \<open>The same with \<open>g\<close> markers already counted, for the loop started at \<open>gap = g\<close>.\<close>

definition retained_from :: "nat \<Rightarrow> xml list \<Rightarrow> xml list" where
  "retained_from g es =
     map (\<lambda>i. es ! i)
       (filter (\<lambda>i. tag (es ! i) \<noteq> ''Gap'' \<and> even (g + gaps_before es i)) [0..<length es])"

section \<open>\<open>build_url\<close>: the order of the query parameters\<close>

lemma case_option_append:
  "(case x of None \<Rightarrow> u | Some a \<Rightarrow> u @ f a) = u @ (case x of None \<Rightarrow> [] | Some a \<Rightarrow> f a)"
  by (cases x) simp_all

lemma case_option_append2:
  "(case x of None \<Rightarrow> u @ c | Some a \<Rightarrow> u @ f a) = u @ (case x of None \<Rightarrow> c | Some a \<Rightarrow> f a)"
  by (cases x) simp_all

lemma case_pyarg_append:
  "(case s of PyNone \<Rightarrow> u | _ \<Rightarrow> u @ x) = u @ (case s of PyNone \<Rightarrow> [] | _ \<Rightarrow> x)"
  by (cases s) simp_all

lemma if_append: "(if c then u @ x else u) = u @ (if c then x else [])"
  by simp

lemma time_interval_from:
  "(case x of None \<Rightarrow> ''&TimeInterval=1800-01-01'' | Some d \<Rightarrow> ''&TimeInterval='' @ d)
     = ''&TimeInterval='' @ (case x of None \<Rightarrow> ''1800-01-01'' | Some d \<Rightarrow> d)"
  by (cases x) simp_all

lemma time_interval_to:
  "(case x of None \<Rightarrow> ''/now'' | Some d \<Rightarrow> ''/'' @ d)
     = ''/'' @ (case x of None \<Rightarrow> ''now'' | Some d \<Rightarrow> d)"
  by (cases x) simp_all

text \<open>
  C8. \<open>build_url\<close> is a function of its arguments, and for a file name ending in
  \<open>.hts\<close> and a request of \<open>available_requests\<close> the URL is the base address (with a
  final \<open>/\<close>), the file name, \<open>?Service=Hilltop&Request=\<close> and the request, followed by
  the parameters in this order, each one only when it is supplied: \<open>Site\<close>,
  \<open>Measurement\<close>, \<open>SiteParameters\<close>, \<open>Location\<close> (only for \<open>SiteList\<close>), and only for
  \<open>GetData\<close>: \<open>Method\<close>, \<open>Interval\<close>, \<open>TimeInterval\<close> (always there, from
  \<open>1800-01-01\<close> and to \<open>now\<close> when the dates are not supplied), \<open>Alignment\<close>.
\<close>

theorem build_url_parameter_order:
  assumes "endswith hts ''.hts''" and "request \<in> set available_requests"
  shows "build_url base_url hts request site measurement from_date to_date location
           site_parameters agg_method agg_interval alignment =
    Inr ((if endswith base_url ''/'' then base_url else base_url @ ''/'') @ hts
      @ ''?Service=Hilltop&Request='' @ request
      @ (case site of PyNone \<Rightarrow> [] | _ \<Rightarrow> ''&Site='' @ quote (str_arg site))
      @ (case measurement of None \<Rightarrow> [] | Some m \<Rightarrow> ''&Measurement='' @ quote m)
      @ (case site_parameters of
           None \<Rightarrow> []
         | Some ps \<Rightarrow> ''&SiteParameters='' @ quote (join '','' ps))
      @ (if location \<and> request = ''SiteList'' then ''&Location=Yes'' else [])
      @ (if request = ''GetData'' then
           (case agg_method of None \<Rightarrow> [] | Some a \<Rightarrow> ''&Method='' @ quote a)
         @ (case agg_interval of None \<Rightarrow> [] | Some a \<Rightarrow> ''&Interval='' @ quote a)
         @ ''&TimeInterval='' @ (case from_date of None \<Rightarrow> ''1800-01-01'' | Some d \<Rightarrow> d)
         @ ''/'' @ (case to_date of None \<Rightarrow> ''now'' | Some d \<Rightarrow> d)
         @ (case alignment of None \<Rightarrow> [] | Some a \<Rightarrow> ''&Alignment='' @ a)
         else []))"
proof -
  have base: "(if \<not> endswith base_url ''/'' then base_url @ ''/'' else base_url)
      = (if endswith base_url ''/'' then base_url else base_url @ ''/'')"
    by simp
  show ?thesis
  proof (cases "request = ''GetData''")
    case True
    show ?thesis
      unfolding build_url_def Let_def base
      apply (simp only: assms not_True_eq_False if_False not_not if_True True
          case_option_append case_option_append2 case_pyarg_append if_append
          time_interval_from time_interval_to)
      apply (simp add: available_requests_def)
      done
  next
    case False
    show ?thesis
      unfolding build_url_def Let_def base
      apply (simp only: assms not_True_eq_False if_False not_not if_True False
          case_option_append case_option_append2 case_pyarg_append if_append
          time_interval_from time_interval_to)
      apply (simp add: available_requests_def)
      done
  qed
qed

theorem build_url_parameter_order_witness:
  "endswith ''a.hts'' ''.hts'' \<and> ''GetData'' \<in> set available_requests \<and>
   build_url ''http://x'' ''a.hts'' ''GetData'' (PyInt 12) (Some ''Flow rate'') None
     (Some ''2020-01-01'') True (Some [''a'', ''b'']) (Some ''Average'') None (Some ''00:00'')
   = Inr ''http://x/a.hts?Service=Hilltop&Request=GetData&Site=12&Measurement=Flow%20rate&SiteParameters=a%2Cb&Method=Average&TimeInterval=1800-01-01/2020-01-01&Alignment=00:00''"
proof -
  have h1: "endswith ''a.hts'' ''.hts''"
    by (simp add: endswith_def)
  have h2: "''GetData'' \<in> set available_requests"
    by (simp add: available_requests_def)
  show ?thesis
    using h1 h2
      build_url_parameter_order [OF h1 h2, of "''http://x''" "PyInt 12" "Some ''Flow rate''"
        None "Some ''2020-01-01''" True "Some [''a'', ''b'']" "Some ''Average''" None
        "Some ''00:00''"]
    by (simp add: endswith_def quote_def always_safe_def utf8_def quote_byte_def
        str_int_def str_nat.simps)
qed

section \<open>An \<open>Error\<close> element stops everything\<close>

text \<open>
  C2. When the document that comes back has an \<open>Error\<close> child, each of
  \<open>measurement_list\<close>, \<open>get_data\<close> and \<open>wq_sample_parameter_list\<close> raises the
  \<open>ValueError\<close> of the source: nothing is printed and no table is returned, whatever
  else the document holds.
\<close>

theorem error_element_raises:
  assumes "find_elem ''Error'' tree1 \<noteq> None"
  shows "(build_url base_url hts ''MeasurementList'' site measurement None None False None
             None None None = Inr u1 \<longrightarrow> fetch env u1 = Inr tree1 \<longrightarrow>
          measurement_list env base_url hts site measurement output_bad_sites
            = ([], Inl (ValueError ''No results returned from URL request'')))
       \<and> (build_url base_url hts ''GetData'' site gmeasurement from_date to_date False None
             agg_method agg_interval alignment = Inr u2 \<longrightarrow> fetch env u2 = Inr tree1 \<longrightarrow>
          get_data env base_url hts site gmeasurement from_date to_date agg_method agg_interval
             alignment parameters
            = ([], Inl (ValueError ''No results returned from URL request'')))
       \<and> (build_url base_url hts ''GetData'' site (Some ''WQ Sample'') None None False None
             None None None = Inr u3 \<longrightarrow> fetch env u3 = Inr tree1 \<longrightarrow>
          wq_sample_parameter_list env base_url hts site
            = ([], Inl (ValueError ''No results returned from URL request'')))"
proof (intro conjI impI)
  assume "build_url base_url hts ''MeasurementList'' site measurement None None False None
             None None None = Inr u1" and "fetch env u1 = Inr tree1"
  with assms show "measurement_list env base_url hts site measurement output_bad_sites
            = ([], Inl (ValueError ''No results returned from URL request''))"
    by (simp add: measurement_list_def)
next
  assume "build_url base_url hts ''GetData'' site gmeasurement from_date to_date False None
             agg_method agg_interval alignment = Inr u2" and "fetch env u2 = Inr tree1"
  with assms show "get_data env base_url hts site gmeasurement from_date to_date agg_method
      agg_interval alignment parameters
            = ([], Inl (ValueError ''No results returned from URL request''))"
    by (simp add: get_data_def)
next
  assume "build_url base_url hts ''GetData'' site (Some ''WQ Sample'') None None False None
             None None None = Inr u3" and "fetch env u3 = Inr tree1"
  with assms show "wq_sample_parameter_list env base_url hts site
            = ([], Inl (ValueError ''No results returned from URL request''))"
    by (simp add: wq_sample_parameter_list_def)
qed


section \<open>Facts about the example documents\<close>

lemma example_get_data_url:
  "build_url ''http://x'' ''a.hts'' ''GetData'' (PyStr ''S1'') (Some ''Flow'') None None False None
     None None None
   = Inr ''http://x/a.hts?Service=Hilltop&Request=GetData&Site=S1&Measurement=Flow&TimeInterval=1800-01-01/now''"
  by code_simp

lemma example_fetch: "fetch (example_env tree1) url = Inr tree1"
  by (simp add: example_env_def)

lemma example_find_Error: "find_elem ''Error'' (data_response dt es) = None"
  by (simp add: find_elem_def data_response_def measurement_elem_def)

lemma example_find_Measurement:
  "find_elem ''Measurement'' (data_response dt es) = Some (measurement_elem dt es)"
  by (simp add: find_elem_def data_response_def measurement_elem_def)

lemma example_find_DataSource:
  "find_elem ''DataSource'' (measurement_elem dt es) = Some (data_source_elem dt)"
  by (simp add: find_elem_def data_source_elem_def measurement_elem_def)

lemma example_find_DataType: "find_text ''DataType'' (data_source_elem dt) = Inr (Some dt)"
  by (simp add: find_text_def find_elem_def data_source_elem_def)

lemma example_find_Data:
  "find_elem ''Data'' (measurement_elem dt es) = Some (Element ''Data'' [] None es)"
  by (simp add: find_elem_def data_source_elem_def measurement_elem_def)


lemma example_measurement_list_url:
  "build_url ''http://x'' ''a.hts'' ''MeasurementList'' (PyStr ''S1'') None None None False None
     None None None
   = Inr ''http://x/a.hts?Service=Hilltop&Request=MeasurementList&Site=S1''"
  by code_simp

lemma example_wq_sample_url:
  "build_url ''http://x'' ''a.hts'' ''GetData'' (PyStr ''S1'') (Some ''WQ Sample'') None None False
     None None None None
   = Inr ''http://x/a.hts?Service=Hilltop&Request=GetData&Site=S1&Measurement=WQ%20Sample&TimeInterval=1800-01-01/now''"
  by code_simp

theorem error_element_raises_witness:
  "find_elem ''Error'' error_response \<noteq> None \<and>
   measurement_list (example_env error_response) ''http://x'' ''a.hts'' (PyStr ''S1'') None True
     = ([], Inl (ValueError ''No results returned from URL request'')) \<and>
   get_data (example_env error_response) ''http://x'' ''a.hts'' (PyStr ''S1'') (Some ''Flow'')
       None None None None None True
     = ([], Inl (ValueError ''No results returned from URL request'')) \<and>
   wq_sample_parameter_list (example_env error_response) ''http://x'' ''a.hts'' (PyStr ''S1'')
     = ([], Inl (ValueError ''No results returned from URL request''))"
proof -
  have h: "find_elem ''Error'' error_response \<noteq> None"
    by (simp add: find_elem_def error_response_def)
  note T = error_element_raises [OF h, where env = "example_env error_response"
      and base_url = "''http://x''" and hts = "''a.hts''" and site = "PyStr ''S1''"
      and measurement = None and gmeasurement = "Some ''Flow''" and from_date = None
      and to_date = None and agg_method = None and agg_interval = None and alignment = None
      and output_bad_sites = True and parameters = True
      and ?u1.0 = "''http://x/a.hts?Service=Hilltop&Request=MeasurementList&Site=S1''"
      and ?u2.0 = "''http://x/a.hts?Service=Hilltop&Request=GetData&Site=S1&Measurement=Flow&TimeInterval=1800-01-01/now''"
      and ?u3.0 = "''http://x/a.hts?Service=Hilltop&Request=GetData&Site=S1&Measurement=WQ%20Sample&TimeInterval=1800-01-01/now''"]
  show ?thesis
    using h T
    by (simp only: example_measurement_list_url example_get_data_url example_wq_sample_url
        example_fetch simp_thms)
qed

section \<open>No data\<close>

text \<open>
  C3. A document without \<open>Error\<close> and without any \<open>DataSource\<close>, asked for with
  \<open>output_bad_sites=True\<close>: \<open>measurement_list\<close> prints its notice and returns one
  empty table, not the pair of tables that its documentation promises for
  \<open>output_bad_sites=True\<close> and that the branch for a site with only \<open>WQ Sample\<close>
  returns on the same call.
\<close>

theorem measurement_list_no_sources_one_table:
  "measurement_list (example_env no_sources_response) ''http://x'' ''a.hts'' (PyStr ''S1'') None True
     = ([''No data, returning empty DataFrame''], Inr (ML_One empty_DataFrame)) \<and>
   measurement_list (example_env only_wq_response) ''http://x'' ''a.hts'' (PyStr ''S1'') None True
     = ([''Site only has WQ Sample''], Inr (ML_Two empty_DataFrame empty_DataFrame)) \<and>
   get_data (example_env no_measurement_response) ''http://x'' ''a.hts'' (PyStr ''S1'')
       (Some ''Flow'') None None None None None False
     = ([''No data, returning empty DataFrame''], Inr GD_Empty)"
  by code_simp

section \<open>The parameter summary of \<open>wq_sample_parameter_list\<close>\<close>

text \<open>
  C5. A payload with parameter \<open>A\<close> at the first time point and parameter \<open>B\<close> at
  the second: the table has a row for \<open>B\<close> only. The comprehension that builds
  \<open>p_t_dict\<close> runs over \<open>p_tup\<close>, the names of the last time point with parameters,
  and not over \<open>p_set\<close>, the names of all time points, which the loop collects and
  nothing reads.
\<close>

theorem wq_sample_parameter_list_last_point_only:
  "wq_sample_parameter_list
     (example_env (data_response ''WQSample''
        [wq_point ''2005-01-01'' [(''A'', ''1'')], wq_point ''2010-01-01'' [(''B'', ''2'')]]))
     ''http://x'' ''a.hts'' (PyStr ''S1'')
   = ([], Inr (Frame [''Site'', ''Parameter'']
        [\<lparr>wqp_Site = PyStr ''S1'', wqp_Parameter = ''B'',
           wqp_From = Some 1262304000000000000, wqp_To = Some 1262304000000000000,
           wqp_DataType = ''WQSample''\<rparr>]))"
  by code_simp

section \<open>Gap markers\<close>

lemma retained_from_Nil: "retained_from g [] = []"
  by (simp add: retained_from_def)

lemma retained_from_Cons:
  "retained_from g (d # es) =
     (if tag d = ''Gap'' then retained_from (Suc g) es
      else if even g then d # retained_from g es
      else retained_from g es)"
proof -
  have upt: "[0..<length (d # es)] = 0 # map Suc [0..<length es]"
    by (simp add: upt_conv_Cons map_Suc_upt del: upt_Suc)
  show ?thesis
    unfolding retained_from_def upt
    by (simp add: filter_map comp_def gaps_before_def)
qed

lemma gap_loop_retained:
  "gap_loop vtag es g acc =
     (case emap (time_value vtag) (retained_from g es) of
        Inl e \<Rightarrow> Inl e
      | Inr rs \<Rightarrow> Inr (acc @ rs))"
proof (induction es arbitrary: g acc)
  case Nil
  show ?case by (simp add: retained_from_Nil)
next
  case (Cons d es)
  show ?case
  proof (cases "tag d = ''Gap''")
    case True
    then show ?thesis by (simp add: Cons.IH retained_from_Cons)
  next
    case False
    show ?thesis
    proof (cases "even g")
      case True
      then have "g mod 2 \<noteq> 1" by presburger
      with False True show ?thesis
        by (simp add: Cons.IH retained_from_Cons split: sum.split)
    next
      case odd: False
      then have "g mod 2 = 1" by presburger
      with False odd show ?thesis
        by (simp add: Cons.IH retained_from_Cons)
    qed
  qed
qed

lemma retained_from_0: "retained_from 0 es = retained es"
  by (simp add: retained_from_def retained_def)


text \<open>
  C1. For the shapes \<open>SimpleTimeSeries\<close> and \<open>MeterReading\<close>, and for \<open>WQData\<close> when
  parameters are not requested, \<open>get_data\<close> builds its table from the children
  \<open>retained\<close> keeps and from nothing else: a gap marker gives no row, a child with an odd
  number of markers before it (between an opening marker and its closing one, or after
  an opening marker that is never closed) gives no row, and every other child gives one.
\<close>

theorem get_data_gap_exclusion:
  assumes "build_url base_url hts ''GetData'' site measurement from_date to_date False None
             agg_method agg_interval alignment = Inr url"
    and "fetch env url = Inr tree1"
    and "find_elem ''Error'' tree1 = None"
    and "find_elem ''Measurement'' tree1 = Some meas1"
    and "find_elem ''DataSource'' meas1 = Some ds"
    and "find_text ''DataType'' ds = Inr datatype"
    and "find_elem ''Data'' meas1 = Some data1"
    and "measurement \<noteq> Some ''WQ Sample''"
    and "datatype \<in> {Some ''SimpleTimeSeries'', Some ''MeterReading''}
         \<or> datatype = Some ''WQData'' \<and> \<not> parameters"
  shows "get_data env base_url hts site measurement from_date to_date agg_method agg_interval
           alignment parameters =
         ([], case emap (time_value (if datatype = Some ''WQData'' then ''Value'' else ''I1''))
                     (retained (children data1)) of
                Inl e \<Rightarrow> Inl e
              | Inr tsdata_list \<Rightarrow>
                  (case values_frame env site measurement (map fst tsdata_list)
                          (if datatype = Some ''WQData'' then map Str (map snd tsdata_list)
                           else to_numeric_ignore env (map snd tsdata_list)) of
                     Inl e \<Rightarrow> Inl e
                   | Inr data_df \<Rightarrow> Inr (GD_Values data_df)))"
proof -
  have top: "get_data env base_url hts site measurement from_date to_date agg_method
      agg_interval alignment parameters = ([], get_data_extract env site measurement parameters meas1)"
    using assms(1-4) by (simp add: get_data_def)
  show ?thesis
  proof (cases "datatype = Some ''WQData''")
    case True
    with assms(9) have np: "\<not> parameters" by auto
    show ?thesis
      unfolding top get_data_extract_def
      using assms(5-8) True np
      by (simp add: gap_loop_retained retained_from_0 split: sum.split)
  next
    case False
    with assms(9) have dt: "datatype \<in> {Some ''SimpleTimeSeries'', Some ''MeterReading''}" by auto
    show ?thesis
      unfolding top get_data_extract_def
      using assms(5-8) False dt
      by (simp add: gap_loop_retained retained_from_0 split: sum.split)
  qed
qed

theorem get_data_gap_exclusion_witness:
  "retained [i1_point ''2005-01-01'' ''12'', gap_marker, i1_point ''2010-01-01'' ''13'',
             gap_marker, i1_point ''2015-01-01'' ''14'', gap_marker, i1_point ''2099-01-01'' ''15'']
     = [i1_point ''2005-01-01'' ''12'', i1_point ''2015-01-01'' ''14''] \<and>
   get_data (example_env (data_response ''SimpleTimeSeries''
      [i1_point ''2005-01-01'' ''12'', gap_marker, i1_point ''2010-01-01'' ''13'',
       gap_marker, i1_point ''2015-01-01'' ''14'', gap_marker, i1_point ''2099-01-01'' ''15'']))
     ''http://x'' ''a.hts'' (PyStr ''S1'') (Some ''Flow'') None None None None None False
   = ([], Inr (GD_Values (Frame [''Site'', ''Measurement'', ''DateTime'']
        [\<lparr>ts_Site = PyStr ''S1'', ts_Measurement = Some ''Flow'',
           ts_DateTime = Some 1104537600000000000, ts_Value = Num 12\<rparr>,
         \<lparr>ts_Site = PyStr ''S1'', ts_Measurement = Some ''Flow'',
           ts_DateTime = Some 1420070400000000000, ts_Value = Num 14\<rparr>])))"
proof -
  have shape: "Some ''SimpleTimeSeries'' \<in> {Some ''SimpleTimeSeries'', Some ''MeterReading''}
         \<or> Some ''SimpleTimeSeries'' = Some ''WQData'' \<and> \<not> False"
    by simp
  have m: "Some ''Flow'' \<noteq> Some ''WQ Sample''"
    by simp
  note T = get_data_gap_exclusion [OF example_get_data_url example_fetch example_find_Error
      example_find_Measurement example_find_DataSource example_find_DataType
      example_find_Data m shape]
  show ?thesis
    unfolding T by code_simp
qed


section \<open>Numeric coercion of a simple series\<close>

lemma those_map:
  "those (map f vs) = (if list_all (\<lambda>s. f s \<noteq> None) vs then Some (map (\<lambda>s. the (f s)) vs) else None)"
  by (induction vs) (auto split: option.split)

lemma to_numeric_ignore_eq:
  "to_numeric_ignore env vs =
     (if list_all (\<lambda>s. to_number env s \<noteq> None) vs
      then map (\<lambda>s. Num (the (to_number env s))) vs
      else map Str vs)"
  by (simp add: to_numeric_ignore_def those_map comp_def)


text \<open>
  C9, as the code has it. \<open>pd.to_numeric(..., errors='ignore')\<close> decides for the whole
  column: when every value of the table parses as a number, every value is numeric; when
  one value does not parse, every value of the table stays the string it was, also the
  values that do parse. No error is raised either way.
\<close>

theorem simple_series_coercion:
  assumes "build_url base_url hts ''GetData'' site measurement from_date to_date False None
             agg_method agg_interval alignment = Inr url"
    and "fetch env url = Inr tree1"
    and "find_elem ''Error'' tree1 = None"
    and "find_elem ''Measurement'' tree1 = Some meas1"
    and "find_elem ''DataSource'' meas1 = Some ds"
    and "find_text ''DataType'' ds = Inr datatype"
    and "find_elem ''Data'' meas1 = Some data1"
    and "measurement \<noteq> Some ''WQ Sample''"
    and "datatype \<in> {Some ''SimpleTimeSeries'', Some ''MeterReading''}"
    and "gap_loop ''I1'' (children data1) 0 [] = Inr tsdata_list"
    and "emap (to_datetime_raise env) (map fst tsdata_list) = Inr dts"
  shows "get_data env base_url hts site measurement from_date to_date agg_method agg_interval
           alignment parameters =
         ([], Inr (GD_Values (Frame [''Site'', ''Measurement'', ''DateTime'']
            (map (\<lambda>(dt, v). \<lparr>ts_Site = site, ts_Measurement = measurement,
                              ts_DateTime = dt, ts_Value = v\<rparr>)
               (zip dts
                  (if list_all (\<lambda>s. to_number env s \<noteq> None) (map snd tsdata_list)
                   then map (\<lambda>s. Num (the (to_number env s))) (map snd tsdata_list)
                   else map Str (map snd tsdata_list)))))))"
proof -
  have top: "get_data env base_url hts site measurement from_date to_date agg_method
      agg_interval alignment parameters = ([], get_data_extract env site measurement parameters meas1)"
    using assms(1-4) by (simp add: get_data_def)
  from assms(9) have nw: "datatype \<noteq> Some ''WQData''" by auto
  show ?thesis
    unfolding top get_data_extract_def
    using assms(5-11) nw
    by (simp add: values_frame_def to_numeric_ignore_eq)
qed


theorem simple_series_coercion_witness:
  "get_data (example_env (data_response ''SimpleTimeSeries''
      [i1_point ''2005-01-01'' ''12'', i1_point ''2015-01-01'' ''14'']))
     ''http://x'' ''a.hts'' (PyStr ''S1'') (Some ''Flow'') None None None None None False
   = ([], Inr (GD_Values (Frame [''Site'', ''Measurement'', ''DateTime'']
        [\<lparr>ts_Site = PyStr ''S1'', ts_Measurement = Some ''Flow'',
           ts_DateTime = Some 1104537600000000000, ts_Value = Num 12\<rparr>,
         \<lparr>ts_Site = PyStr ''S1'', ts_Measurement = Some ''Flow'',
           ts_DateTime = Some 1420070400000000000, ts_Value = Num 14\<rparr>])))"
proof -
  have shape: "Some ''SimpleTimeSeries'' \<in> {Some ''SimpleTimeSeries'', Some ''MeterReading''}"
    by simp
  have m: "Some ''Flow'' \<noteq> Some ''WQ Sample''"
    by simp
  have loop: "gap_loop ''I1''
      (children (Element ''Data'' [] None
         [i1_point ''2005-01-01'' ''12'', i1_point ''2015-01-01'' ''14''])) 0 []
      = Inr [(Some ''2005-01-01'', ''12''), (Some ''2015-01-01'', ''14'')]"
    by code_simp
  have dts: "emap (to_datetime_raise (example_env (data_response ''SimpleTimeSeries''
        [i1_point ''2005-01-01'' ''12'', i1_point ''2015-01-01'' ''14''])))
      (map fst [(Some ''2005-01-01'', ''12''), (Some ''2015-01-01'', ''14'')])
      = Inr [Some 1104537600000000000, Some 1420070400000000000]"
    by code_simp
  note T = simple_series_coercion [OF example_get_data_url example_fetch example_find_Error
      example_find_Measurement example_find_DataSource example_find_DataType
      example_find_Data m shape loop dts]
  show ?thesis
    unfolding T by code_simp
qed

text \<open>
  The claim as it is written fails on a column with one value that does not parse: the
  value \<open>12\<close> parses as a number and is returned as the string \<open>12\<close>.
\<close>

theorem simple_series_mixed_column_stays_strings:
  "to_number (example_env (data_response ''SimpleTimeSeries''
      [i1_point ''2005-01-01'' ''12'', i1_point ''2015-01-01'' ''abc''])) ''12'' = Some 12 \<and>
   get_data (example_env (data_response ''SimpleTimeSeries''
      [i1_point ''2005-01-01'' ''12'', i1_point ''2015-01-01'' ''abc'']))
     ''http://x'' ''a.hts'' (PyStr ''S1'') (Some ''Flow'') None None None None None False
   = ([], Inr (GD_Values (Frame [''Site'', ''Measurement'', ''DateTime'']
        [\<lparr>ts_Site = PyStr ''S1'', ts_Measurement = Some ''Flow'',
           ts_DateTime = Some 1104537600000000000, ts_Value = Str ''12''\<rparr>,
         \<lparr>ts_Site = PyStr ''S1'', ts_Measurement = Some ''Flow'',
           ts_DateTime = Some 1420070400000000000, ts_Value = Str ''abc''\<rparr>])))"
  by code_simp


section \<open>The loop over the data sources\<close>

lemma ds_loop_append:
  "ds_loop (xs @ ys) acc = (case ds_loop xs acc of Inl e \<Rightarrow> Inl e | Inr l \<Rightarrow> ds_loop ys l)"
  by (induction xs arbitrary: acc) (simp_all split: option.split sum.split)

lemma m_loop_rows:
  "m_loop ds_dict ms acc = Inr l \<Longrightarrow> length l = length acc + length ms \<and> take (length acc) l = acc"
proof (induction ms arbitrary: acc)
  case Nil
  then show ?case by simp
next
  case (Cons m ms)
  from Cons.prems obtain m_dict where
    md: "tag_dict m_types (children m) [] = Inr m_dict"
    and rest: "m_loop ds_dict ms (acc @ [dict_update m_dict ds_dict]) = Inr l"
    by (auto split: sum.splits)
  from Cons.IH [OF rest] have
    len: "length l = length (acc @ [dict_update m_dict ds_dict]) + length ms"
    and tk: "take (length (acc @ [dict_update m_dict ds_dict])) l = acc @ [dict_update m_dict ds_dict]"
    by blast+
  from len have "length l = length acc + length (m # ms)" by simp
  moreover from tk have "take (length acc) l = acc"
    by (metis append_eq_conv_conj take_take min.idem length_append le_add1 min.absorb1 take_all_iff take_append order_refl)
  ultimately show ?case by blast
qed

lemma source_rows_rows:
  "source_rows d l1 = Inr l2 \<Longrightarrow>
     length l2 = length l1 + length (findall ''Measurement'' d) \<and> take (length l1) l2 = l1"
  by (auto simp add: source_rows_def split: sum.splits dest: m_loop_rows)

lemma measurement_list_ds_loop:
  assumes "build_url base_url hts ''MeasurementList'' site measurement None None False None
             None None None = Inr url"
    and "fetch env url = Inr tree1"
    and "find_elem ''Error'' tree1 = None"
    and "findall ''DataSource'' tree1 \<noteq> []"
    and "only_wq_sample (findall ''DataSource'' tree1) = Inr False"
  shows "measurement_list env base_url hts site measurement output_bad_sites =
     (case ds_loop (findall ''DataSource'' tree1) [] of
        Inl e \<Rightarrow> ([], Inl e)
      | Inr data_list \<Rightarrow> ml_finish env site output_bad_sites data_list)"
  using assms by (simp add: measurement_list_def)


text \<open>
  C7. When \<open>measurement_list\<close> reaches its loop over the data sources
  \<open>pre @ d # post\<close>: a data source \<open>d\<close> with a \<open>TSType\<close> child whose text is not
  \<open>StdSeries\<close> adds nothing, the result is that of the other data sources alone; a
  data source without a \<open>TSType\<close> child is extracted, and its extraction appends one
  row for each of its \<open>Measurement\<close> children to the rows found so far.
\<close>

theorem measurement_list_tstype_filter:
  assumes "build_url base_url hts ''MeasurementList'' site measurement None None False None
             None None None = Inr url"
    and "fetch env url = Inr tree1"
    and "find_elem ''Error'' tree1 = None"
    and "findall ''DataSource'' tree1 = pre @ d # post"
    and "only_wq_sample (pre @ d # post) = Inr False"
  shows "(\<forall>ts. find_elem ''TSType'' d = Some ts \<and> el_text ts \<noteq> Some ''StdSeries'' \<longrightarrow>
            measurement_list env base_url hts site measurement output_bad_sites =
              (case ds_loop (pre @ post) [] of
                 Inl e \<Rightarrow> ([], Inl e)
               | Inr data_list \<Rightarrow> ml_finish env site output_bad_sites data_list))
       \<and> (find_elem ''TSType'' d = None \<longrightarrow>
            measurement_list env base_url hts site measurement output_bad_sites =
              (case ds_loop pre [] of
                 Inl e \<Rightarrow> ([], Inl e)
               | Inr l1 \<Rightarrow>
                   (case source_rows d l1 of
                      Inl e \<Rightarrow> ([], Inl e)
                    | Inr l2 \<Rightarrow>
                        (case ds_loop post l2 of
                           Inl e \<Rightarrow> ([], Inl e)
                         | Inr data_list \<Rightarrow> ml_finish env site output_bad_sites data_list))))
       \<and> (\<forall>l1 l2. source_rows d l1 = Inr l2 \<longrightarrow>
            length l2 = length l1 + length (findall ''Measurement'' d) \<and>
            take (length l1) l2 = l1)"
proof -
  have ne: "findall ''DataSource'' tree1 \<noteq> []"
    using assms(4) by simp
  have top: "measurement_list env base_url hts site measurement output_bad_sites =
     (case ds_loop (pre @ d # post) [] of
        Inl e \<Rightarrow> ([], Inl e)
      | Inr data_list \<Rightarrow> ml_finish env site output_bad_sites data_list)"
    using measurement_list_ds_loop [OF assms(1-3) ne] assms(4,5) by simp
  have skip: "ds_loop (pre @ d # post) [] = ds_loop (pre @ post) []"
    if "find_elem ''TSType'' d = Some ts" and "el_text ts \<noteq> Some ''StdSeries''" for ts
    using that by (simp add: ds_loop_append split: sum.split)
  have keep: "ds_loop (pre @ d # post) [] =
      (case ds_loop pre [] of
         Inl e \<Rightarrow> Inl e
       | Inr l1 \<Rightarrow> (case source_rows d l1 of Inl e \<Rightarrow> Inl e | Inr l2 \<Rightarrow> ds_loop post l2))"
    if "find_elem ''TSType'' d = None"
    using that by (simp add: ds_loop_append split: sum.split)
  show ?thesis
  proof (intro conjI allI impI)
    fix ts
    assume "find_elem ''TSType'' d = Some ts \<and> el_text ts \<noteq> Some ''StdSeries''"
    then show "measurement_list env base_url hts site measurement output_bad_sites =
              (case ds_loop (pre @ post) [] of
                 Inl e \<Rightarrow> ([], Inl e)
               | Inr data_list \<Rightarrow> ml_finish env site output_bad_sites data_list)"
      using top skip by simp
  next
    assume "find_elem ''TSType'' d = None"
    then show "measurement_list env base_url hts site measurement output_bad_sites =
              (case ds_loop pre [] of
                 Inl e \<Rightarrow> ([], Inl e)
               | Inr l1 \<Rightarrow>
                   (case source_rows d l1 of
                      Inl e \<Rightarrow> ([], Inl e)
                    | Inr l2 \<Rightarrow>
                        (case ds_loop post l2 of
                           Inl e \<Rightarrow> ([], Inl e)
                         | Inr data_list \<Rightarrow> ml_finish env site output_bad_sites data_list)))"
      unfolding top keep [OF \<open>find_elem ''TSType'' d = None\<close>]
      by (simp split: sum.split)
  next
    fix l1 l2
    assume "source_rows d l1 = Inr l2"
    then show "length l2 = length l1 + length (findall ''Measurement'' d)"
      using source_rows_rows by blast
  next
    fix l1 l2
    assume "source_rows d l1 = Inr l2"
    then show "take (length l1) l2 = l1"
      using source_rows_rows by blast
  qed
qed


theorem measurement_list_tstype_filter_witness:
  "find_elem ''TSType'' (catalog_source [(''Name'', ''Check'')]
       [field ''TSType'' ''CheckSeries'', field ''From'' ''2005-01-01'', field ''To'' ''2010-01-01'']
       [''Stage'']) = Some (field ''TSType'' ''CheckSeries'') \<and>
   el_text (field ''TSType'' ''CheckSeries'') \<noteq> Some ''StdSeries'' \<and>
   find_elem ''TSType'' (catalog_source [(''Name'', ''Flow'')]
       [field ''From'' ''2005-01-01'', field ''To'' ''2010-01-01''] [''Flow'']) = None \<and>
   measurement_list (example_env (catalog_response
     [catalog_source [(''Name'', ''Check'')]
        [field ''TSType'' ''CheckSeries'', field ''From'' ''2005-01-01'', field ''To'' ''2010-01-01'']
        [''Stage''],
      catalog_source [(''Name'', ''Flow'')]
        [field ''From'' ''2005-01-01'', field ''To'' ''2010-01-01''] [''Flow'']]))
     ''http://x'' ''a.hts'' (PyStr ''S1'') None False
   = ([], Inr (ML_One (Frame [''Site'', ''Measurement'']
        [\<lparr>ml_Site = PyStr ''S1'', ml_Measurement = Some ''Flow'', ml_Units = Some ''m'',
           ml_DataType = None, ml_From = Some 1104537600000000000,
           ml_To = Some 1262304000000000000, ml_SensorGroup = None\<rparr>])))"
proof -
  let ?check = "catalog_source [(''Name'', ''Check'')]
       [field ''TSType'' ''CheckSeries'', field ''From'' ''2005-01-01'', field ''To'' ''2010-01-01'']
       [''Stage'']"
  let ?flow = "catalog_source [(''Name'', ''Flow'')]
       [field ''From'' ''2005-01-01'', field ''To'' ''2010-01-01''] [''Flow'']"
  have all: "findall ''DataSource'' (catalog_response [?check, ?flow]) = [] @ ?check # [?flow]"
    by (simp add: findall_def catalog_response_def catalog_source_def)
  have err: "find_elem ''Error'' (catalog_response [?check, ?flow]) = None"
    by (simp add: find_elem_def catalog_response_def catalog_source_def)
  have wq: "only_wq_sample ([] @ ?check # [?flow]) = Inr False"
    by (simp add: only_wq_sample_def)
  have ts: "find_elem ''TSType'' ?check = Some (field ''TSType'' ''CheckSeries'')"
    by (simp add: find_elem_def catalog_source_def field_def)
  have nstd: "el_text (field ''TSType'' ''CheckSeries'') \<noteq> Some ''StdSeries''"
    by (simp add: field_def)
  have nots: "find_elem ''TSType'' ?flow = None"
    by (simp add: find_elem_def catalog_source_def field_def)
  note T = measurement_list_tstype_filter [OF example_measurement_list_url example_fetch
      err all wq, where output_bad_sites = False]
  from T ts nstd have
    "measurement_list (example_env (catalog_response [?check, ?flow]))
       ''http://x'' ''a.hts'' (PyStr ''S1'') None False =
     (case ds_loop ([] @ [?flow]) [] of
        Inl e \<Rightarrow> ([], Inl e)
      | Inr data_list \<Rightarrow>
          ml_finish (example_env (catalog_response [?check, ?flow])) (PyStr ''S1'') False data_list)"
    by blast
  also have "\<dots> = ([], Inr (ML_One (Frame [''Site'', ''Measurement'']
        [\<lparr>ml_Site = PyStr ''S1'', ml_Measurement = Some ''Flow'', ml_Units = Some ''m'',
           ml_DataType = None, ml_From = Some 1104537600000000000,
           ml_To = Some 1262304000000000000, ml_SensorGroup = None\<rparr>])))"
    by code_simp
  finally show ?thesis
    using ts nstd nots by blast
qed


section \<open>Rows with bad times\<close>

lemma bad_times_iff:
  "bad_times now r \<longleftrightarrow>
     ml_From r = None \<or> ml_To r = None \<or>
     (\<exists>f. ml_From r = Some f \<and> f < ts_1900) \<or> (\<exists>t. ml_To r = Some t \<and> now < t)"
  by (auto simp add: bad_times_def split: option.splits)


text \<open>
  C4, as the code has it. With \<open>output_bad_sites=True\<close>, a catalog that is not empty
  and has the columns \<open>From\<close>, \<open>To\<close> and \<open>Measurement\<close>, and a clock that does not
  move between its two readings, \<open>measurement_list\<close> returns the pair of the good and
  the bad rows: a row is bad exactly when \<open>From\<close> or \<open>To\<close> is missing, \<open>From\<close> is
  before 1900-01-01 or \<open>To\<close> is after the current moment; the good rows are the others,
  and no row is lost. The order of \<open>From\<close> and \<open>To\<close> is not looked at.
\<close>

theorem measurement_list_bad_sites_partition:
  assumes "build_url base_url hts ''MeasurementList'' site measurement None None False None
             None None None = Inr url"
    and "fetch env url = Inr tree1"
    and "find_elem ''Error'' tree1 = None"
    and "only_wq_sample (findall ''DataSource'' tree1) = Inr False"
    and "ds_loop (findall ''DataSource'' tree1) [] = Inr data_list"
    and "\<not> df_empty data_list"
    and "has_column data_list ''From''"
    and "has_column data_list ''To''"
    and "has_column data_list ''RequestAs''"
    and "today env 1 = today env 0"
    and "mtype_df = map (ml_row_of env site) data_list"
    and "bad = filter (bad_times (today env 0)) mtype_df"
    and "good = filter (\<lambda>r. \<not> bad_times (today env 0) r) mtype_df"
  shows "measurement_list env base_url hts site measurement True =
           ((if bad = [] then []
             else [''There are '' @ str_int (int (length bad)) @ '' sites with bad times'']),
            Inr (ML_Two (Frame [''Site'', ''Measurement''] good) (Frame [] bad)))
         \<and> (\<forall>r. r \<in> set bad \<longleftrightarrow>
               r \<in> set mtype_df \<and>
               (ml_From r = None \<or> ml_To r = None \<or>
                (\<exists>f. ml_From r = Some f \<and> f < ts_1900) \<or>
                (\<exists>t. ml_To r = Some t \<and> today env 0 < t)))
         \<and> (\<forall>r. r \<in> set good \<longleftrightarrow> r \<in> set mtype_df \<and> r \<notin> set bad)
         \<and> length good + length bad = length mtype_df"
proof -
  have ne: "findall ''DataSource'' tree1 \<noteq> []"
    using assms(5,6) by (auto simp add: df_empty_def)
  have top: "measurement_list env base_url hts site measurement True =
      ml_finish env site True data_list"
    using measurement_list_ds_loop [OF assms(1-3) ne assms(4)] assms(5) by simp
  have allgood: "filter (\<lambda>r. \<not> bad_times (today env 0) r) mtype_df = mtype_df"
    if "bad = []"
    using that unfolding assms(12) by (simp add: filter_empty_conv)
  have res: "ml_finish env site True data_list =
           ((if bad = [] then []
             else [''There are '' @ str_int (int (length bad)) @ '' sites with bad times'']),
            Inr (ML_Two (Frame [''Site'', ''Measurement''] good) (Frame [] bad)))"
  proof (cases "bad = []")
    case True
    with allgood have g: "good = mtype_df" by (simp add: assms(13))
    show ?thesis
      using True g assms(6-9) assms(11,12)
      by (simp add: ml_finish_def set_index_ml_def empty_DataFrame_def Let_def)
  next
    case False
    show ?thesis
      using False assms(6-13)
      by (simp add: ml_finish_def set_index_ml_def Let_def)
  qed
  have b: "\<forall>r. r \<in> set bad \<longleftrightarrow>
               r \<in> set mtype_df \<and>
               (ml_From r = None \<or> ml_To r = None \<or>
                (\<exists>f. ml_From r = Some f \<and> f < ts_1900) \<or>
                (\<exists>t. ml_To r = Some t \<and> today env 0 < t))"
    unfolding assms(12) by (simp add: bad_times_iff)
  have g: "\<forall>r. r \<in> set good \<longleftrightarrow> r \<in> set mtype_df \<and> r \<notin> set bad"
    unfolding assms(12,13) by auto
  have l: "length good + length bad = length mtype_df"
    unfolding assms(12,13) using sum_length_filter_compl [of "bad_times (today env 0)" mtype_df]
    by simp
  from top res b g l show ?thesis by simp
qed


theorem measurement_list_bad_sites_partition_witness:
  "measurement_list (example_env (catalog_response
     [catalog_source [(''Name'', ''Flow'')]
        [field ''From'' ''2005-01-01'', field ''To'' ''2010-01-01''] [''Flow''],
      catalog_source [(''Name'', ''Rain'')]
        [field ''From'' ''2010-01-01'', field ''To'' ''2099-01-01''] [''Rain''],
      catalog_source [(''Name'', ''Old'')]
        [field ''From'' ''1850-01-01'', field ''To'' ''2010-01-01''] [''Old''],
      catalog_source [(''Name'', ''Open'')]
        [field ''From'' ''2010-01-01'', field ''To'' ''never''] [''Open'']]))
     ''http://x'' ''a.hts'' (PyStr ''S1'') None True
   = ([''There are 3 sites with bad times''],
      Inr (ML_Two
        (Frame [''Site'', ''Measurement'']
           [\<lparr>ml_Site = PyStr ''S1'', ml_Measurement = Some ''Flow'', ml_Units = Some ''m'',
              ml_DataType = None, ml_From = Some 1104537600000000000,
              ml_To = Some 1262304000000000000, ml_SensorGroup = None\<rparr>])
        (Frame []
           [\<lparr>ml_Site = PyStr ''S1'', ml_Measurement = Some ''Rain'', ml_Units = Some ''m'',
              ml_DataType = None, ml_From = Some 1262304000000000000,
              ml_To = Some 4070908800000000000, ml_SensorGroup = None\<rparr>,
            \<lparr>ml_Site = PyStr ''S1'', ml_Measurement = Some ''Old'', ml_Units = Some ''m'',
              ml_DataType = None, ml_From = Some (- 3786825600000000000),
              ml_To = Some 1262304000000000000, ml_SensorGroup = None\<rparr>,
            \<lparr>ml_Site = PyStr ''S1'', ml_Measurement = Some ''Open'', ml_Units = Some ''m'',
              ml_DataType = None, ml_From = Some 1262304000000000000,
              ml_To = None, ml_SensorGroup = None\<rparr>])))"
proof -
  let ?doc = "catalog_response
     [catalog_source [(''Name'', ''Flow'')]
        [field ''From'' ''2005-01-01'', field ''To'' ''2010-01-01''] [''Flow''],
      catalog_source [(''Name'', ''Rain'')]
        [field ''From'' ''2010-01-01'', field ''To'' ''2099-01-01''] [''Rain''],
      catalog_source [(''Name'', ''Old'')]
        [field ''From'' ''1850-01-01'', field ''To'' ''2010-01-01''] [''Old''],
      catalog_source [(''Name'', ''Open'')]
        [field ''From'' ''2010-01-01'', field ''To'' ''never''] [''Open'']]"
  let ?rows = "[[(''RequestAs'', ''Flow''), (''Units'', ''m''), (''From'', ''2005-01-01''),
                 (''To'', ''2010-01-01'')],
                [(''RequestAs'', ''Rain''), (''Units'', ''m''), (''From'', ''2010-01-01''),
                 (''To'', ''2099-01-01'')],
                [(''RequestAs'', ''Old''), (''Units'', ''m''), (''From'', ''1850-01-01''),
                 (''To'', ''2010-01-01'')],
                [(''RequestAs'', ''Open''), (''Units'', ''m''), (''From'', ''2010-01-01''),
                 (''To'', ''never'')]]"
  have err: "find_elem ''Error'' ?doc = None"
    by (simp add: find_elem_def catalog_response_def catalog_source_def)
  have wq: "only_wq_sample (findall ''DataSource'' ?doc) = Inr False"
    by code_simp
  have loop: "ds_loop (findall ''DataSource'' ?doc) [] = Inr ?rows"
    by code_simp
  have ne: "\<not> df_empty ?rows"
    by code_simp
  have hf: "has_column ?rows ''From''"
    by code_simp
  have ht: "has_column ?rows ''To''"
    by code_simp
  have hr: "has_column ?rows ''RequestAs''"
    by code_simp
  have clock: "today (example_env ?doc) 1 = today (example_env ?doc) 0"
    by (simp add: example_env_def)
  note T = measurement_list_bad_sites_partition [OF example_measurement_list_url example_fetch
      err wq loop ne hf ht hr clock refl refl refl, THEN conjunct1]
  show ?thesis
    unfolding T by code_simp
qed


text \<open>
  The claim as it is written fails on a row with \<open>From\<close> after \<open>To\<close>, both in the
  past and after 1900: the row is returned as good, and the table of bad rows is empty.
\<close>

theorem measurement_list_from_after_to_is_good:
  "(1104537600000000000 :: int) < 1262304000000000000 \<and>
   measurement_list (example_env (catalog_response
     [catalog_source [(''Name'', ''Flow'')]
        [field ''From'' ''2010-01-01'', field ''To'' ''2005-01-01''] [''Flow'']]))
     ''http://x'' ''a.hts'' (PyStr ''S1'') None True
   = ([], Inr (ML_Two
        (Frame [''Site'', ''Measurement'']
           [\<lparr>ml_Site = PyStr ''S1'', ml_Measurement = Some ''Flow'', ml_Units = Some ''m'',
              ml_DataType = None, ml_From = Some 1262304000000000000,
              ml_To = Some 1104537600000000000, ml_SensorGroup = None\<rparr>])
        (Frame [] [])))"
  by code_simp



section \<open>The water-quality sample shape\<close>

lemma emap_length: "emap f xs = Inr ys \<Longrightarrow> length ys = length xs"
  by (induction xs arbitrary: ys) (auto split: sum.splits)

lemma p_dict_of_pairs:
  "emap param_pair params1 = Inr ps \<Longrightarrow> p_dict_of params1 acc = Inr (dict_update acc ps)"
proof (induction params1 arbitrary: ps acc)
  case Nil
  then show ?case by (simp add: dict_update_def)
next
  case (Cons i params1)
  from Cons.prems obtain q qs where
    q: "param_pair i = Inr q" and qs: "emap param_pair params1 = Inr qs" and ps: "ps = q # qs"
    by (auto split: sum.splits)
  obtain n v where nv: "q = (n, v)" by (cases q)
  from q nv obtain name val where
    a: "attrib_get ''Name'' i = Inr name" and b: "attrib_get ''Value'' i = Inr val"
    and n: "n = ascii_ignore name" and v: "v = ascii_ignore (take 299 val)"
    by (auto simp add: param_pair_def split: sum.splits)
  show ?case
    using Cons.IH [OF qs] a b n v ps nv by (simp add: dict_update_def)
qed

lemma wq_sample_loop_fold:
  "emap time_point es = Inr pts \<Longrightarrow> wq_sample_loop es D = Inr (fold wq_step pts D)"
proof (induction es arbitrary: pts D)
  case Nil
  then show ?case by simp
next
  case (Cons d es)
  from Cons.prems obtain q qs where
    q: "time_point d = Inr q" and qs: "emap time_point es = Inr qs" and pts: "pts = q # qs"
    by (auto split: sum.splits)
  obtain t ps where tps: "q = (t, ps)" by (cases q)
  from q tps have t: "find_text ''T'' d = Inr t"
    and ps: "emap param_pair (findall ''Parameter'' d) = Inr ps"
    by (auto simp add: time_point_def split: sum.splits)
  from emap_length [OF ps] have e: "findall ''Parameter'' d = [] \<longleftrightarrow> ps = []"
    by auto
  show ?case
    using Cons.IH [OF qs] t e p_dict_of_pairs [OF ps, of "[]"] pts tps
    by (simp add: wq_step_def Let_def)
qed

lemma update_fresh: "k \<notin> fst ` set al \<Longrightarrow> AList.update k v al = al @ [(k, v)]"
  by (induction al) auto

lemma dict_update_distinct:
  "distinct (map fst (acc @ ps)) \<Longrightarrow> dict_update acc ps = acc @ ps"
proof (induction ps arbitrary: acc)
  case Nil
  then show ?case by (simp add: dict_update_def)
next
  case (Cons p ps)
  obtain k v where p: "p = (k, v)" by (cases p)
  from Cons.prems p have fresh: "k \<notin> fst ` set acc" by auto
  from Cons.prems p have d: "distinct (map fst ((acc @ [(k, v)]) @ ps))" by auto
  have "dict_update acc (p # ps) = dict_update (AList.update k v acc) ps"
    by (simp add: dict_update_def p)
  also have "\<dots> = dict_update (acc @ [(k, v)]) ps"
    by (simp add: update_fresh [OF fresh])
  also have "\<dots> = (acc @ [(k, v)]) @ ps"
    by (rule Cons.IH [OF d])
  finally show ?case by (simp add: p)
qed

lemma map_of_dict_update:
  "map_of (dict_update acc ps) = map_of acc ++ map_of (rev ps)"
proof (induction ps arbitrary: acc)
  case Nil
  then show ?case by (simp add: dict_update_def)
next
  case (Cons p ps)
  obtain k v where p: "p = (k, v)" by (cases p)
  have "dict_update acc (p # ps) = dict_update (AList.update k v acc) ps"
    by (simp add: dict_update_def p)
  then have "map_of (dict_update acc (p # ps)) = map_of (AList.update k v acc) ++ map_of (rev ps)"
    by (simp add: Cons.IH)
  also have "\<dots> = map_of acc ++ map_of (rev (p # ps))"
    by (rule ext) (auto simp add: p update_conv' map_add_def split: option.split)
  finally show ?case .
qed

lemma distinct_dict_update:
  "distinct (map fst acc) \<Longrightarrow> distinct (map fst (dict_update acc ps))"
proof (induction ps arbitrary: acc)
  case Nil
  then show ?case by (simp add: dict_update_def)
next
  case (Cons p ps)
  obtain k v where p: "p = (k, v)" by (cases p)
  have "dict_update acc (p # ps) = dict_update (AList.update k v acc) ps"
    by (simp add: dict_update_def p)
  with Cons.IH [of "AList.update k v acc"] Cons.prems show ?case
    by (simp add: distinct_update)
qed

lemma distinct_fold_wq_step:
  "distinct (map fst D) \<Longrightarrow> distinct (map fst (fold wq_step pts D))"
proof (induction pts arbitrary: D)
  case Nil
  then show ?case by simp
next
  case (Cons q pts)
  obtain t ps where q: "q = (t, ps)" by (cases q)
  from Cons.prems have "distinct (map fst (wq_step q D))"
    by (simp add: q wq_step_def distinct_update)
  from Cons.IH [OF this] show ?case by simp
qed

lemma pd_distinct_fold_wq_step:
  "\<forall>(t, pd) \<in> set D. distinct (map fst pd) \<Longrightarrow>
   \<forall>(t, pd) \<in> set (fold wq_step pts D). distinct (map fst pd)"
proof (induction pts arbitrary: D)
  case Nil
  then show ?case by simp
next
  case (Cons q pts)
  obtain t ps where q: "q = (t, ps)" by (cases q)
  have d: "distinct (map fst (dict_update [] ps))"
    by (rule distinct_dict_update) simp
  have "\<forall>(t, pd) \<in> set (wq_step q D). distinct (map fst pd)"
  proof (cases "ps = []")
    case True
    with Cons.prems show ?thesis by (simp add: q wq_step_def)
  next
    case False
    have "set (AList.update t (dict_update [] ps) D) \<subseteq> insert (t, dict_update [] ps) (set D)"
      by (induction D) auto
    with Cons.prems d False show ?thesis
      by (auto simp add: q wq_step_def)
  qed
  from Cons.IH [OF this] show ?case by simp
qed

lemma map_of_fold_wq_step:
  "map_of (fold wq_step pts D) t =
     (case last_with_params t pts of
        None \<Rightarrow> map_of D t
      | Some ps \<Rightarrow> Some (dict_update [] ps))"
proof (induction pts arbitrary: D rule: rev_induct)
  case Nil
  show ?case by (simp add: last_with_params_def Let_def)
next
  case (snoc q pts)
  obtain t' ps where q: "q = (t', ps)" by (cases q)
  show ?case
  proof (cases "t' = t \<and> ps \<noteq> []")
    case True
    then have "last_with_params t (pts @ [q]) = Some ps"
      by (simp add: last_with_params_def q Let_def)
    with True show ?thesis
      by (simp add: q wq_step_def update_conv')
  next
    case False
    then have l: "last_with_params t (pts @ [q]) = last_with_params t pts"
      by (auto simp add: last_with_params_def q Let_def)
    from False have "map_of (wq_step q (fold wq_step pts D)) t = map_of (fold wq_step pts D) t"
      by (auto simp add: q wq_step_def update_conv')
    with l snoc.IH show ?thesis by simp
  qed
qed

lemma fold_wq_step_distinct_times:
  "distinct (map fst D @ map fst (filter (\<lambda>(t, ps). ps \<noteq> []) pts)) \<Longrightarrow>
   fold wq_step pts D =
     D @ map (\<lambda>(t, ps). (t, dict_update [] ps)) (filter (\<lambda>(t, ps). ps \<noteq> []) pts)"
proof (induction pts arbitrary: D)
  case Nil
  then show ?case by simp
next
  case (Cons q pts)
  obtain t ps where q: "q = (t, ps)" by (cases q)
  show ?case
  proof (cases "ps = []")
    case True
    with Cons.prems q have "distinct (map fst D @ map fst (filter (\<lambda>(t, ps). ps \<noteq> []) pts))"
      by simp
    from Cons.IH [OF this] True show ?thesis by (simp add: q wq_step_def)
  next
    case False
    with Cons.prems q have fresh: "t \<notin> fst ` set D" by auto
    from False Cons.prems q have
      d: "distinct (map fst (D @ [(t, dict_update [] ps)]) @
            map fst (filter (\<lambda>(t, ps). ps \<noteq> []) pts))"
      by auto
    have "wq_step q D = D @ [(t, dict_update [] ps)]"
      using False by (simp add: q wq_step_def update_fresh [OF fresh])
    with Cons.IH [OF d] False show ?thesis by (simp add: q)
  qed
qed


lemma last_with_params_in:
  "last_with_params t pts = Some ps \<Longrightarrow> (t, ps) \<in> set pts \<and> ps \<noteq> []"
proof -
  assume a: "last_with_params t pts = Some ps"
  let ?xs = "filter (\<lambda>(t', ps). t' = t \<and> ps \<noteq> []) pts"
  from a have ne: "?xs \<noteq> []" and l: "snd (last ?xs) = ps"
    by (auto simp add: last_with_params_def Let_def split: if_splits)
  from ne have "last ?xs \<in> set ?xs" by (rule last_in_set)
  with l show ?thesis by auto
qed

lemma set_first_seen: "set (first_seen xs) = set xs"
  by (simp add: first_seen_def)

lemma distinct_first_seen: "distinct (first_seen xs)"
  by (simp add: first_seen_def)

lemma stack_rows_stack_row:
  "stack_rows D =
     concat (map (stack_row (first_seen (concat (map (\<lambda>(t, pd). map fst pd) D)))) D)"
  by (simp add: stack_rows_def stack_row_def Let_def)

lemma set_stack_row:
  "set (stack_row cols (t, pd)) = {(t, c, v) | c v. c \<in> set cols \<and> map_of pd c = Some v}"
  by (auto simp add: stack_row_def split: option.splits)

lemma distinct_stack_row: "distinct cols \<Longrightarrow> distinct (stack_row cols (t, pd))"
proof (induction cols)
  case Nil
  then show ?case by (simp add: stack_row_def)
next
  case (Cons c cols)
  have "stack_row (c # cols) (t, pd) =
      (case map_of pd c of None \<Rightarrow> [] | Some v \<Rightarrow> [(t, c, v)]) @ stack_row cols (t, pd)"
    by (simp add: stack_row_def)
  moreover from Cons have "distinct (stack_row cols (t, pd))" by simp
  moreover from Cons.prems have "\<And>v. (t, c, v) \<notin> set (stack_row cols (t, pd))"
    by (auto simp add: set_stack_row)
  ultimately show ?case by (auto split: option.split)
qed

lemma distinct_concat_stack_row:
  "distinct cols \<Longrightarrow> distinct (map fst D) \<Longrightarrow> distinct (concat (map (stack_row cols) D))"
proof (induction D)
  case Nil
  then show ?case by simp
next
  case (Cons q D)
  obtain t pd where q: "q = (t, pd)" by (cases q)
  from Cons.prems q have fresh: "t \<notin> fst ` set D" by auto
  have "set (stack_row cols (t, pd)) \<inter> set (concat (map (stack_row cols) D)) = {}"
  proof -
    have "x \<notin> set (concat (map (stack_row cols) D))" if "x \<in> set (stack_row cols (t, pd))" for x
    proof
      assume "x \<in> set (concat (map (stack_row cols) D))"
      then obtain q' where q': "q' \<in> set D" and x: "x \<in> set (stack_row cols q')" by auto
      obtain t' pd' where tq: "q' = (t', pd')" by (cases q')
      from x tq have "fst x = t'" by (auto simp add: set_stack_row)
      moreover from that have "fst x = t" by (auto simp add: set_stack_row)
      ultimately show False using fresh q' tq by force
    qed
    then show ?thesis by auto
  qed
  with Cons q show ?case
    by (simp add: distinct_stack_row)
qed

lemma distinct_stack_rows: "distinct (map fst D) \<Longrightarrow> distinct (stack_rows D)"
  unfolding stack_rows_stack_row
  by (rule distinct_concat_stack_row) (rule distinct_first_seen)

lemma set_stack_rows:
  "(t, p, v) \<in> set (stack_rows D) \<longleftrightarrow> (\<exists>pd. (t, pd) \<in> set D \<and> map_of pd p = Some v)"
proof
  assume "(t, p, v) \<in> set (stack_rows D)"
  then obtain q where q: "q \<in> set D"
    and x: "(t, p, v) \<in> set (stack_row (first_seen (concat (map (\<lambda>(t, pd). map fst pd) D))) q)"
    unfolding stack_rows_stack_row by auto
  obtain t' pd where tq: "q = (t', pd)" by (cases q)
  from x tq have "t' = t" and "map_of pd p = Some v" by (auto simp add: set_stack_row)
  with q tq show "\<exists>pd. (t, pd) \<in> set D \<and> map_of pd p = Some v" by auto
next
  assume "\<exists>pd. (t, pd) \<in> set D \<and> map_of pd p = Some v"
  then obtain pd where q: "(t, pd) \<in> set D" and m: "map_of pd p = Some v" by blast
  from m have "(p, v) \<in> set pd" by (rule map_of_SomeD)
  then have "p \<in> fst ` set pd" by force
  with q have "p \<in> set (first_seen (concat (map (\<lambda>(t, pd). map fst pd) D)))"
    by (force simp add: set_first_seen)
  with m have "(t, p, v) \<in> set (stack_row (first_seen (concat (map (\<lambda>(t, pd). map fst pd) D))) (t, pd))"
    by (simp add: set_stack_row)
  with q show "(t, p, v) \<in> set (stack_rows D)"
    unfolding stack_rows_stack_row by auto
qed

lemma mset_stack_row:
  assumes "distinct cols" and "distinct (map fst pd)" and "fst ` set pd \<subseteq> set cols"
  shows "mset (stack_row cols (t, pd)) = mset (map (\<lambda>(p, v). (t, p, v)) pd)"
proof -
  have d1: "distinct (stack_row cols (t, pd))"
    by (rule distinct_stack_row) (rule assms(1))
  from assms(2) have dp: "distinct pd" by (rule distinct_map [THEN iffD1, THEN conjunct1])
  have d2: "distinct (map (\<lambda>(p, v). (t, p, v)) pd)"
    using dp by (auto simp add: distinct_map inj_on_def)
  have "set (stack_row cols (t, pd)) = set (map (\<lambda>(p, v). (t, p, v)) pd)"
    using assms(2,3) by (force simp add: set_stack_row map_of_eq_Some_iff)
  with set_eq_iff_mset_eq_distinct [OF d1 d2] show ?thesis
    by blast
qed

lemma mset_stack_rows:
  assumes "\<forall>(t, pd) \<in> set D. distinct (map fst pd)"
  shows "mset (stack_rows D) = mset (concat (map (\<lambda>(t, pd). map (\<lambda>(p, v). (t, p, v)) pd) D))"
proof -
  let ?cols = "first_seen (concat (map (\<lambda>(t, pd). map fst pd) D))"
  have each: "mset (stack_row ?cols q) = mset ((\<lambda>(t, pd). map (\<lambda>(p, v). (t, p, v)) pd) q)"
    if "q \<in> set D" for q
  proof -
    obtain t pd where q: "q = (t, pd)" by (cases q)
    from that q assms have d: "distinct (map fst pd)" by auto
    from that q have sub: "fst ` set pd \<subseteq> set ?cols" by (force simp add: set_first_seen)
    show ?thesis
      unfolding q using mset_stack_row [OF distinct_first_seen d sub] by simp
  qed
  have gen: "(\<forall>q \<in> set E. mset (f q) = mset (g q)) \<Longrightarrow>
      mset (concat (map f E)) = mset (concat (map g E))" for f g :: "'a \<Rightarrow> 'b list" and E
    by (induction E) simp_all
  show ?thesis
    unfolding stack_rows_stack_row
    by (rule gen) (use each in blast)
qed

lemma emap_all_ok: "\<forall>x \<in> set xs. f x = Inr (g x) \<Longrightarrow> emap f xs = Inr (map g xs)"
  by (induction xs) simp_all

lemma zip_rows: "map F (zip (map h xs) xs) = map (\<lambda>x. F (h x, x)) xs"
  by (induction xs) simp_all

lemma wq_frame_ok:
  assumes "\<forall>(t, p, v) \<in> set long. to_datetime_raise env t = Inr (to_datetime_coerce env t)"
  shows "wq_frame env site long =
     Inr (map (\<lambda>(t, p, v). \<lparr>wq_Site = site, wq_Parameter = p,
                wq_DateTime = to_datetime_coerce env t, wq_Value = v\<rparr>) long)"
proof -
  from assms have "\<forall>t \<in> set (map fst long). to_datetime_raise env t = Inr (to_datetime_coerce env t)"
    by auto
  from emap_all_ok [OF this] have
    e: "emap (to_datetime_raise env) (map fst long) = Inr (map (to_datetime_coerce env) (map fst long))" .
  show ?thesis
    unfolding wq_frame_def e by (simp add: zip_rows comp_def case_prod_unfold)
qed

lemma get_data_wq_sample:
  assumes "build_url base_url hts ''GetData'' site (Some ''WQ Sample'') from_date to_date False
             None agg_method agg_interval alignment = Inr url"
    and "fetch env url = Inr tree1"
    and "find_elem ''Error'' tree1 = None"
    and "find_elem ''Measurement'' tree1 = Some meas1"
    and "find_elem ''DataSource'' meas1 = Some ds"
    and "find_text ''DataType'' ds = Inr datatype"
    and "find_elem ''Data'' meas1 = Some data1"
    and "\<not> (parameters \<and> datatype = Some ''WQData'')"
    and "emap time_point (children data1) = Inr pts"
  shows "get_data env base_url hts site (Some ''WQ Sample'') from_date to_date agg_method
           agg_interval alignment parameters =
         ([], case wq_frame env site (stack_rows (fold wq_step pts [])) of
                Inl e \<Rightarrow> Inl e
              | Inr rows \<Rightarrow> Inr (GD_WQSample (Frame [''Site'', ''Parameter'', ''DateTime''] rows)))"
proof -
  have top: "get_data env base_url hts site (Some ''WQ Sample'') from_date to_date agg_method
      agg_interval alignment parameters =
      ([], get_data_extract env site (Some ''WQ Sample'') parameters meas1)"
    using assms(1-4) by (simp add: get_data_def)
  show ?thesis
    unfolding top get_data_extract_def
    using assms(5-8) wq_sample_loop_fold [OF assms(9), of "[]"]
    by (auto split: sum.split)
qed


lemma map_concat_rows:
  "map F (concat (map (\<lambda>(t, pd). map (\<lambda>(p, v). (t, p, v)) pd) pts)) =
   concat (map (\<lambda>(t, ps). map (\<lambda>(p, v). F (t, p, v)) ps) pts)"
  by (induction pts) (simp_all add: case_prod_unfold)

lemma example_to_datetime_raise:
  "example_to_datetime s = Some x \<Longrightarrow>
   to_datetime_raise (example_env tree1) (Some s) = Inr (to_datetime_coerce (example_env tree1) (Some s))"
  by (simp add: to_datetime_raise_def to_datetime_coerce_def example_env_def)

lemma example_2005: "example_to_datetime ''2005-01-01'' = Some 1104537600000000000"
  by (simp add: example_to_datetime_def)


text \<open>
  C6, as the code has it. When the time points that carry parameters have distinct
  timestamps, the names of the parameters of one time point are distinct, and the
  timestamps parse: \<open>get_data\<close> returns a table indexed by \<open>Site\<close>, \<open>Parameter\<close> and
  \<open>DateTime\<close> that holds, for every time point and every parameter of it, exactly one
  row with the parsed timestamp, the name and the value; a time point without
  parameters has no row. The rows are compared as a multiset.
\<close>

theorem wq_sample_pivot:
  assumes "build_url base_url hts ''GetData'' site (Some ''WQ Sample'') from_date to_date False
             None agg_method agg_interval alignment = Inr url"
    and "fetch env url = Inr tree1"
    and "find_elem ''Error'' tree1 = None"
    and "find_elem ''Measurement'' tree1 = Some meas1"
    and "find_elem ''DataSource'' meas1 = Some ds"
    and "find_text ''DataType'' ds = Inr datatype"
    and "find_elem ''Data'' meas1 = Some data1"
    and "\<not> (parameters \<and> datatype = Some ''WQData'')"
    and "emap time_point (children data1) = Inr pts"
    and "distinct (map fst (filter (\<lambda>(t, ps). ps \<noteq> []) pts))"
    and "\<forall>(t, ps) \<in> set pts. distinct (map fst ps)"
    and "\<forall>(t, ps) \<in> set pts.
           ps \<noteq> [] \<longrightarrow> to_datetime_raise env t = Inr (to_datetime_coerce env t)"
  shows "\<exists>rows.
           get_data env base_url hts site (Some ''WQ Sample'') from_date to_date agg_method
             agg_interval alignment parameters =
           ([], Inr (GD_WQSample (Frame [''Site'', ''Parameter'', ''DateTime''] rows))) \<and>
           mset rows =
           mset (concat (map (\<lambda>(t, ps).
             map (\<lambda>(p, v). \<lparr>wq_Site = site, wq_Parameter = p,
                    wq_DateTime = to_datetime_coerce env t, wq_Value = v\<rparr>) ps) pts))"
proof -
  let ?full = "filter (\<lambda>(t, ps). ps \<noteq> []) pts"
  let ?mk = "\<lambda>(t, p, v). \<lparr>wq_Site = site, wq_Parameter = p,
                wq_DateTime = to_datetime_coerce env t, wq_Value = v\<rparr>"
  let ?long = "stack_rows (fold wq_step pts [])"
  have same: "map (\<lambda>(t, ps). (t, dict_update [] ps)) ?full = ?full"
  proof -
    have "(\<lambda>(t, ps). (t, dict_update [] ps)) q = q" if "q \<in> set ?full" for q
    proof -
      obtain t ps where q: "q = (t, ps)" by (cases q)
      from that q assms(11) have "distinct (map fst ([] @ ps))" by auto
      from dict_update_distinct [OF this] show ?thesis by (simp add: q)
    qed
    then show ?thesis by (intro map_idI)
  qed
  have D: "fold wq_step pts [] = ?full"
    using fold_wq_step_distinct_times [of "[]" pts] assms(10) same by simp
  have dd: "\<forall>(t, pd) \<in> set ?full. distinct (map fst pd)"
    using assms(11) by auto
  have drop_empty: "concat (map (\<lambda>(t, pd). map (\<lambda>(p, v). (t, p, v)) pd) ?full) =
      concat (map (\<lambda>(t, pd). map (\<lambda>(p, v). (t, p, v)) pd) pts)"
    by (induction pts) auto
  have ml: "mset ?long = mset (concat (map (\<lambda>(t, pd). map (\<lambda>(p, v). (t, p, v)) pd) pts))"
    unfolding D using mset_stack_rows [OF dd] drop_empty by simp
  have ok: "\<forall>(t, p, v) \<in> set ?long. to_datetime_raise env t = Inr (to_datetime_coerce env t)"
  proof -
    have "to_datetime_raise env t = Inr (to_datetime_coerce env t)"
      if "(t, p, v) \<in> set ?long" for t p v
    proof -
      from that obtain pd where "(t, pd) \<in> set ?full" and "map_of pd p = Some v"
        unfolding D set_stack_rows by blast
      then have "(t, pd) \<in> set pts" and "pd \<noteq> []" by auto
      with assms(12) show ?thesis by auto
    qed
    then show ?thesis by auto
  qed
  have g: "get_data env base_url hts site (Some ''WQ Sample'') from_date to_date agg_method
             agg_interval alignment parameters =
           ([], Inr (GD_WQSample (Frame [''Site'', ''Parameter'', ''DateTime''] (map ?mk ?long))))"
    using get_data_wq_sample [OF assms(1-9)] wq_frame_ok [OF ok, of site] by simp
  have "mset (map ?mk ?long) =
      mset (map ?mk (concat (map (\<lambda>(t, pd). map (\<lambda>(p, v). (t, p, v)) pd) pts)))"
    by (simp only: mset_map ml)
  also have "map ?mk (concat (map (\<lambda>(t, pd). map (\<lambda>(p, v). (t, p, v)) pd) pts)) =
      concat (map (\<lambda>(t, ps).
             map (\<lambda>(p, v). \<lparr>wq_Site = site, wq_Parameter = p,
                    wq_DateTime = to_datetime_coerce env t, wq_Value = v\<rparr>) ps) pts)"
    by (subst map_concat_rows) simp
  finally have m: "mset (map ?mk ?long) =
      mset (concat (map (\<lambda>(t, ps).
             map (\<lambda>(p, v). \<lparr>wq_Site = site, wq_Parameter = p,
                    wq_DateTime = to_datetime_coerce env t, wq_Value = v\<rparr>) ps) pts))" .
  from g m show ?thesis by blast
qed

theorem wq_sample_pivot_witness:
  "\<exists>rows.
     get_data (example_env (data_response ''WQSample''
        [wq_point ''2005-01-01'' [(''P1'', ''1''), (''P2'', ''2'')], wq_point ''2010-01-01'' []]))
       ''http://x'' ''a.hts'' (PyStr ''S1'') (Some ''WQ Sample'') None None None None None False
     = ([], Inr (GD_WQSample (Frame [''Site'', ''Parameter'', ''DateTime''] rows))) \<and>
     mset rows =
     mset [\<lparr>wq_Site = PyStr ''S1'', wq_Parameter = ''P1'',
             wq_DateTime = Some 1104537600000000000, wq_Value = ''1''\<rparr>,
           \<lparr>wq_Site = PyStr ''S1'', wq_Parameter = ''P2'',
             wq_DateTime = Some 1104537600000000000, wq_Value = ''2''\<rparr>]"
proof -
  let ?es = "[wq_point ''2005-01-01'' [(''P1'', ''1''), (''P2'', ''2'')], wq_point ''2010-01-01'' []]"
  let ?pts = "[(Some ''2005-01-01'', [(''P1'', ''1''), (''P2'', ''2'')]), (Some ''2010-01-01'', [])]"
  have np: "\<not> (False \<and> Some ''WQSample'' = Some ''WQData'')"
    by simp
  have pts: "emap time_point (children (Element ''Data'' [] None ?es)) = Inr ?pts"
    by code_simp
  have dt: "distinct (map fst (filter (\<lambda>(t, ps). ps \<noteq> []) ?pts))"
    by simp
  have dn: "\<forall>(t, ps) \<in> set ?pts. distinct (map fst ps)"
    by simp
  have ok: "\<forall>(t, ps) \<in> set ?pts. ps \<noteq> [] \<longrightarrow>
      to_datetime_raise (example_env (data_response ''WQSample'' ?es)) t
        = Inr (to_datetime_coerce (example_env (data_response ''WQSample'' ?es)) t)"
    by (simp add: example_to_datetime_raise [OF example_2005])
  note T = wq_sample_pivot [OF example_wq_sample_url example_fetch example_find_Error
      example_find_Measurement example_find_DataSource example_find_DataType
      example_find_Data np pts dt dn ok]
  have c: "to_datetime_coerce (example_env (data_response ''WQSample'' ?es)) (Some ''2005-01-01'')
      = Some 1104537600000000000"
    by (simp add: to_datetime_coerce_def example_env_def example_2005)
  from T show ?thesis
    by (simp add: c)
qed


text \<open>
  The claim as it is written fails when two time points carry the same timestamp: the
  first one has two parameters and the table has no row for either.
\<close>

theorem wq_sample_duplicate_timestamp_drops_rows:
  "get_data (example_env (data_response ''WQSample''
      [wq_point ''2005-01-01'' [(''P1'', ''1''), (''P2'', ''2'')],
       wq_point ''2005-01-01'' [(''P3'', ''3'')]]))
     ''http://x'' ''a.hts'' (PyStr ''S1'') (Some ''WQ Sample'') None None None None None False
   = ([], Inr (GD_WQSample (Frame [''Site'', ''Parameter'', ''DateTime'']
        [\<lparr>wq_Site = PyStr ''S1'', wq_Parameter = ''P3'',
           wq_DateTime = Some 1104537600000000000, wq_Value = ''3''\<rparr>])))"
  by code_simp


text \<open>
  C10, as the code has it. The rows of the table are those of a list \<open>long\<close> without
  repetitions, in which \<open>(t, p, v)\<close> occurs exactly when the last time point that has
  the timestamp \<open>t\<close> and carries at least one parameter gives the value \<open>v\<close> to the
  name \<open>p\<close> (the last value, when the name occurs twice there). Time points with the
  same timestamp before that one give no row.
\<close>

theorem wq_sample_duplicate_timestamps:
  assumes "build_url base_url hts ''GetData'' site (Some ''WQ Sample'') from_date to_date False
             None agg_method agg_interval alignment = Inr url"
    and "fetch env url = Inr tree1"
    and "find_elem ''Error'' tree1 = None"
    and "find_elem ''Measurement'' tree1 = Some meas1"
    and "find_elem ''DataSource'' meas1 = Some ds"
    and "find_text ''DataType'' ds = Inr datatype"
    and "find_elem ''Data'' meas1 = Some data1"
    and "\<not> (parameters \<and> datatype = Some ''WQData'')"
    and "emap time_point (children data1) = Inr pts"
    and "\<forall>(t, ps) \<in> set pts.
           ps \<noteq> [] \<longrightarrow> to_datetime_raise env t = Inr (to_datetime_coerce env t)"
  shows "\<exists>long.
           get_data env base_url hts site (Some ''WQ Sample'') from_date to_date agg_method
             agg_interval alignment parameters =
           ([], Inr (GD_WQSample (Frame [''Site'', ''Parameter'', ''DateTime'']
              (map (\<lambda>(t, p, v). \<lparr>wq_Site = site, wq_Parameter = p,
                      wq_DateTime = to_datetime_coerce env t, wq_Value = v\<rparr>) long)))) \<and>
           distinct long \<and>
           (\<forall>t p v. (t, p, v) \<in> set long \<longleftrightarrow>
              (\<exists>ps. last_with_params t pts = Some ps \<and> map_of (rev ps) p = Some v))"
proof -
  let ?D = "fold wq_step pts []"
  let ?long = "stack_rows ?D"
  have dD: "distinct (map fst ?D)"
    by (rule distinct_fold_wq_step) simp
  have inD: "(t, pd) \<in> set ?D \<longleftrightarrow> (\<exists>ps. last_with_params t pts = Some ps \<and> pd = dict_update [] ps)"
    for t pd
  proof -
    have "(t, pd) \<in> set ?D \<longleftrightarrow> map_of ?D t = Some pd"
      using dD by (simp add: map_of_eq_Some_iff)
    also have "\<dots> \<longleftrightarrow> (\<exists>ps. last_with_params t pts = Some ps \<and> pd = dict_update [] ps)"
      by (auto simp add: map_of_fold_wq_step split: option.splits)
    finally show ?thesis .
  qed
  have mem: "(t, p, v) \<in> set ?long \<longleftrightarrow>
      (\<exists>ps. last_with_params t pts = Some ps \<and> map_of (rev ps) p = Some v)" for t p v
    unfolding set_stack_rows inD by (auto simp add: map_of_dict_update)
  have ok: "\<forall>(t, p, v) \<in> set ?long. to_datetime_raise env t = Inr (to_datetime_coerce env t)"
  proof -
    have "to_datetime_raise env t = Inr (to_datetime_coerce env t)"
      if "(t, p, v) \<in> set ?long" for t p v
    proof -
      from that mem obtain ps where "last_with_params t pts = Some ps" by blast
      from last_with_params_in [OF this] assms(10) show ?thesis by auto
    qed
    then show ?thesis by auto
  qed
  have g: "get_data env base_url hts site (Some ''WQ Sample'') from_date to_date agg_method
             agg_interval alignment parameters =
           ([], Inr (GD_WQSample (Frame [''Site'', ''Parameter'', ''DateTime'']
              (map (\<lambda>(t, p, v). \<lparr>wq_Site = site, wq_Parameter = p,
                      wq_DateTime = to_datetime_coerce env t, wq_Value = v\<rparr>) ?long))))"
    using get_data_wq_sample [OF assms(1-9)] wq_frame_ok [OF ok, of site] by simp
  have d: "distinct ?long"
    by (rule distinct_stack_rows) (rule dD)
  from g d mem show ?thesis by blast
qed


theorem wq_sample_duplicate_timestamps_witness:
  "\<exists>long.
     get_data (example_env (data_response ''WQSample''
        [wq_point ''2005-01-01'' [(''P1'', ''1'')], wq_point ''2005-01-01'' [(''P2'', ''2'')]]))
       ''http://x'' ''a.hts'' (PyStr ''S1'') (Some ''WQ Sample'') None None None None None False
     = ([], Inr (GD_WQSample (Frame [''Site'', ''Parameter'', ''DateTime'']
          (map (\<lambda>(t, p, v). \<lparr>wq_Site = PyStr ''S1'', wq_Parameter = p,
                  wq_DateTime = to_datetime_coerce (example_env (data_response ''WQSample''
                    [wq_point ''2005-01-01'' [(''P1'', ''1'')],
                     wq_point ''2005-01-01'' [(''P2'', ''2'')]])) t,
                  wq_Value = v\<rparr>) long)))) \<and>
     distinct long \<and>
     (\<forall>t p v. (t, p, v) \<in> set long \<longleftrightarrow> t = Some ''2005-01-01'' \<and> p = ''P2'' \<and> v = ''2'')"
proof -
  let ?es = "[wq_point ''2005-01-01'' [(''P1'', ''1'')], wq_point ''2005-01-01'' [(''P2'', ''2'')]]"
  let ?pts = "[(Some ''2005-01-01'', [(''P1'', ''1'')]), (Some ''2005-01-01'', [(''P2'', ''2'')])]"
  have np: "\<not> (False \<and> Some ''WQSample'' = Some ''WQData'')"
    by simp
  have pts: "emap time_point (children (Element ''Data'' [] None ?es)) = Inr ?pts"
    by code_simp
  have ok: "\<forall>(t, ps) \<in> set ?pts. ps \<noteq> [] \<longrightarrow>
      to_datetime_raise (example_env (data_response ''WQSample'' ?es)) t
        = Inr (to_datetime_coerce (example_env (data_response ''WQSample'' ?es)) t)"
    by (simp add: example_to_datetime_raise [OF example_2005])
  note T = wq_sample_duplicate_timestamps [OF example_wq_sample_url example_fetch
      example_find_Error example_find_Measurement example_find_DataSource example_find_DataType
      example_find_Data np pts ok]
  have l: "(\<exists>ps. last_with_params t ?pts = Some ps \<and> map_of (rev ps) p = Some v) \<longleftrightarrow>
      t = Some ''2005-01-01'' \<and> p = ''P2'' \<and> v = ''2''" for t p v
    by (auto simp add: last_with_params_def Let_def split: if_splits)
  from T show ?thesis
    unfolding l .
qed


text \<open>
  The claim as it is written fails when the last time point with the repeated timestamp
  has no parameter: the loop skips it, and the rows of the earlier time point stay.
\<close>

theorem wq_sample_empty_duplicate_keeps_rows:
  "get_data (example_env (data_response ''WQSample''
      [wq_point ''2005-01-01'' [(''P1'', ''1'')], wq_point ''2005-01-01'' []]))
     ''http://x'' ''a.hts'' (PyStr ''S1'') (Some ''WQ Sample'') None None None None None False
   = ([], Inr (GD_WQSample (Frame [''Site'', ''Parameter'', ''DateTime'']
        [\<lparr>wq_Site = PyStr ''S1'', wq_Parameter = ''P1'',
           wq_DateTime = Some 1104537600000000000, wq_Value = ''1''\<rparr>])))"
  by code_simp


end
